theory Spec2Isabelle
  imports Complex_Main
begin

section \<open>NodeLab: the graph store and the node execution engine\<close>

text \<open>
  A shallow embedding of the execution engine of NodeLab: the zustand store
  (\<^verbatim>\<open>store.ts\<close>), the routine \<^verbatim>\<open>executeNode\<close> of \<^verbatim>\<open>App.tsx\<close> and the payload
  builders of \<^verbatim>\<open>services/apiService.ts\<close>.

  Conventions of the embedding.
  \<^item> A JavaScript value stored in a node's \<^verbatim>\<open>data\<close> blob is a \<open>jsval\<close>; the blob itself
    (typed \<^verbatim>\<open>any\<close> by the store) is a map from field names to values, and the object
    spread \<^verbatim>\<open>{ ...a, ...b }\<close> is map override \<open>a ++ b\<close>.
  \<^item> JavaScript numbers are exact rationals: NaN, the infinities and IEEE rounding are
    outside the model.
  \<^item> Strings are ASCII character lists.
  \<^item> External calls (image decoding, uploads, provider submissions and polls, fresh
    identifiers, the clock) are inputs of the functions that use them; a rejected
    promise or a thrown exception is the \<open>Inl\<close> side of a sum.
\<close>

subsection \<open>JavaScript values\<close>

datatype jsval = JUndefined | JNull | JBool bool | JNum rat | JStr string

text \<open>
  Fields of a \<^verbatim>\<open>data\<close> object are read at the types \<^verbatim>\<open>types.ts\<close> declares for them
  (\<^verbatim>\<open>WorkflowNodeData\<close>). An optional string field reads as the empty string when it is
  absent: every read of such a field in the engine is a truthiness test, an \<^verbatim>\<open>||\<close>
  default or a comparison with a non-empty literal, and those cannot tell \<^verbatim>\<open>undefined\<close>
  from \<^verbatim>\<open>''\<close>. A value of another type under a typed key is outside the model and reads
  as absent.
\<close>

definition strField :: "(string \<rightharpoonup> jsval) \<Rightarrow> string \<Rightarrow> string" where
  "strField d k = (case d k of Some (JStr s) \<Rightarrow> s | _ \<Rightarrow> [])"

definition numField :: "(string \<rightharpoonup> jsval) \<Rightarrow> string \<Rightarrow> rat option" where
  "numField d k = (case d k of Some (JNum n) \<Rightarrow> Some n | _ \<Rightarrow> None)"

text \<open>\<^verbatim>\<open>a || b\<close> on strings.\<close>

definition orElse :: "string \<Rightarrow> string \<Rightarrow> string" where
  "orElse a b = (if a \<noteq> [] then a else b)"

subsection \<open>Errors\<close>

text \<open>
  What a \<^verbatim>\<open>throw\<close> or a rejected promise carries. The engine's own errors are the
  constructors named after their cause; \<open>Failure m\<close> is any error raised outside the
  engine (network, provider, codec), \<open>m\<close> being its \<^verbatim>\<open>message\<close> property. The catch clause
  reads \<^verbatim>\<open>err.message\<close>; a character outside ASCII is written \<^verbatim>\<open><uXXXX>\<close>, its code point.
\<close>

datatype error =
    MissingSequenceContent
  | MissingInputImage
  | NoValidIndex
  | CanvasContextFailed
  | TrimTooLarge
  | MissingImgbbKey
  | Failure jsval

fun message :: "error \<Rightarrow> jsval" where
  "message MissingSequenceContent =
     JStr ''<u7f3a><u5c11><u5e8f><u5217><u5185><u5bb9><u5206><u955c><u63cf><u8ff0>''"
| "message MissingInputImage = JStr ''<u7f3a><u5c11><u8f93><u5165><u56fe><u50cf>''"
| "message NoValidIndex = JStr ''<u65e0><u6709><u6548><u7684><u9009><u62e9><u7d22><u5f15>''"
| "message CanvasContextFailed = JStr ''Canvas context failed''"
| "message TrimTooLarge =
     JStr ''<u88c1><u526a><u8fb9><u8ddd><u592a><u5927><uff0c><u8d85><u51fa><u683c><u5b50><u5c3a><u5bf8>''"
| "message MissingImgbbKey = JStr ''<u7f3a><u5c11> imgBB API Key''"
| "message (Failure m) = m"

subsection \<open>Nodes, edges and the store\<close>

record position =
  pos_x :: rat
  pos_y :: rat

text \<open>
  The properties of a reactflow node and edge that the engine reads or writes; the
  fields \<^verbatim>\<open>id\<close>, \<^verbatim>\<open>type\<close>, \<^verbatim>\<open>position\<close> and \<^verbatim>\<open>data\<close> carry a prefix where the plain name is
  taken.
\<close>

record node =
  node_id :: string
  node_type :: string
  node_position :: position
  data :: "string \<rightharpoonup> jsval"

text \<open>
  The \<^verbatim>\<open>data\<close> object of an edge, as the connection code of \<^verbatim>\<open>App.tsx\<close> builds it:
  \<^verbatim>\<open>{ order, targetHandle }\<close>, the order being a count plus one or \<^verbatim>\<open>undefined\<close>.
\<close>

record edge_data =
  order :: "int option"
  data_targetHandle :: "string option"

record edge =
  edge_id :: string
  source :: string
  target :: string
  sourceHandle :: "string option"
  targetHandle :: "string option"
  edata :: "edge_data option"

record store =
  nodes :: "node list"
  edges :: "edge list"

text \<open>\<^verbatim>\<open>setNodes\<close>, \<^verbatim>\<open>setEdges\<close>, \<^verbatim>\<open>addNode\<close>: zustand's \<^verbatim>\<open>set\<close> replaces the named keys only.\<close>

definition setNodes :: "node list \<Rightarrow> store \<Rightarrow> store" where
  "setNodes ns st = st\<lparr>nodes := ns\<rparr>"

definition setEdges :: "edge list \<Rightarrow> store \<Rightarrow> store" where
  "setEdges es st = st\<lparr>edges := es\<rparr>"

definition addNode :: "node \<Rightarrow> store \<Rightarrow> store" where
  "addNode n st = st\<lparr>nodes := nodes st @ [n]\<rparr>"

text \<open>
  \<^verbatim>\<open>updateNodeData: (nodeId, data) => set({ nodes: get().nodes.map((node) =>
     node.id === nodeId ? { ...node, data: { ...node.data, ...data } } : node) })\<close>
\<close>

definition updateNodeData :: "string \<Rightarrow> (string \<rightharpoonup> jsval) \<Rightarrow> store \<Rightarrow> store" where
  "updateNodeData nodeId patch st =
     st\<lparr>nodes := map (\<lambda>n. if node_id n = nodeId then n\<lparr>data := data n ++ patch\<rparr> else n)
                      (nodes st)\<rparr>"

text \<open>\<^verbatim>\<open>nodes.find(n => n.id === i)\<close>: the first node with that id, if any.\<close>

definition findNode :: "store \<Rightarrow> string \<Rightarrow> node option" where
  "findNode st i = find (\<lambda>n. node_id n = i) (nodes st)"

subsection \<open>The input resolver\<close>

text \<open>
  \<^verbatim>\<open>getIncomingData\<close> (App.tsx, lines 274 to 296). The three arrays it fills by
  \<^verbatim>\<open>push\<close> are the fields of \<open>incoming\<close>; each \<^verbatim>\<open>forEach\<close> is a left fold over the edges it
  visits.
\<close>

record incoming =
  texts :: "string list"
  images :: "string list"
  imageRemarks :: "string list"

text \<open>\<^verbatim>\<open>a.data?.order || 0\<close>: a missing data object, a missing order and order 0 all give 0.\<close>

definition orderOf :: "edge \<Rightarrow> int" where
  "orderOf e = (case edata e of None \<Rightarrow> 0
                | Some d \<Rightarrow> (case order d of None \<Rightarrow> 0 | Some n \<Rightarrow> if n \<noteq> 0 then n else 0))"

text \<open>\<^verbatim>\<open>!e.targetHandle || e.targetHandle === 'text' || ... 'anchor' || ... 'sequence'\<close>\<close>

definition isTextHandle :: "edge \<Rightarrow> bool" where
  "isTextHandle e = (case targetHandle e of None \<Rightarrow> True
       | Some h \<Rightarrow> h = [] \<or> h = ''text'' \<or> h = ''anchor'' \<or> h = ''sequence'')"

definition isImageHandle :: "edge \<Rightarrow> bool" where
  "isImageHandle e = (targetHandle e = Some ''image'')"

text \<open>The body of the first \<^verbatim>\<open>forEach\<close>.\<close>

definition pushText :: "store \<Rightarrow> incoming \<Rightarrow> edge \<Rightarrow> incoming" where
  "pushText state acc e =
     (case findNode state (source e) of
        None \<Rightarrow> acc
      | Some sourceNode \<Rightarrow>
          if strField (data sourceNode) ''content'' \<noteq> []
          then acc\<lparr>texts := texts acc @ [strField (data sourceNode) ''content'']\<rparr>
          else acc)"

text \<open>The body of the second \<^verbatim>\<open>forEach\<close>: the remark is pushed only when it is truthy.\<close>

definition pushImage :: "store \<Rightarrow> incoming \<Rightarrow> edge \<Rightarrow> incoming" where
  "pushImage state acc e =
     (case findNode state (source e) of
        None \<Rightarrow> acc
      | Some sourceNode \<Rightarrow>
          if strField (data sourceNode) ''url'' \<noteq> []
          then (let acc1 = acc\<lparr>images := images acc @ [strField (data sourceNode) ''url'']\<rparr>
                in if strField (data sourceNode) ''remark'' \<noteq> []
                   then acc1\<lparr>imageRemarks :=
                          imageRemarks acc1 @ [strField (data sourceNode) ''remark'']\<rparr>
                   else acc1)
          else acc)"

text \<open>
  \<^verbatim>\<open>Array.prototype.sort\<close> is stable and the comparator is the difference of two
  integer keys, so the sorted array is the stable sort by that key.
\<close>

definition getIncomingData :: "store \<Rightarrow> string \<Rightarrow> incoming" where
  "getIncomingData state targetNodeId =
     (let incomingEdges = filter (\<lambda>e. target e = targetNodeId) (edges state);
          data0 = \<lparr>texts = [], images = [], imageRemarks = []\<rparr>;
          data1 = foldl (pushText state) data0 (filter isTextHandle incomingEdges)
      in foldl (pushImage state) data1 (sort_key orderOf (filter isImageHandle incomingEdges)))"

text \<open>
  The remark section of the prompt (App.tsx, line 303) numbers the remarks by their
  own position: \<^verbatim>\<open>imageRemarks.map((rem, idx) => `[image ${idx + 1} ...]: ${rem}`)\<close>. The
  pair \<open>(k, rem)\<close> stands for the line that attributes \<open>rem\<close> to image \<open>k\<close>.
\<close>

definition remarkLabels :: "incoming \<Rightarrow> (nat \<times> string) list" where
  "remarkLabels inputs = map (\<lambda>(idx, rem). (idx + 1, rem)) (enumerate 0 (imageRemarks inputs))"

text \<open>The URL the resolver reads through an image edge, empty when there is none.\<close>

definition srcUrl :: "store \<Rightarrow> edge \<Rightarrow> string" where
  "srcUrl st e = (case findNode st (source e) of None \<Rightarrow> []
                  | Some sourceNode \<Rightarrow> strField (data sourceNode) ''url'')"

text \<open>
  The image edges of a target that deliver an image, in the order of the edge
  collection.
\<close>

definition imageSources :: "store \<Rightarrow> string \<Rightarrow> edge list" where
  "imageSources st t =
     filter (\<lambda>e. srcUrl st e \<noteq> []) (filter isImageHandle (filter (\<lambda>e. target e = t) (edges st)))"

text \<open>An edge with its missing order written out as 0.\<close>

definition explicitOrder :: "edge \<Rightarrow> edge" where
  "explicitOrder e =
     e\<lparr>edata := Some (case edata e of
                        None \<Rightarrow> \<lparr>order = Some 0, data_targetHandle = None\<rparr>
                      | Some d \<Rightarrow> (case order d of None \<Rightarrow> d\<lparr>order := Some 0\<rparr> | Some n \<Rightarrow> d))\<rparr>"

subsection \<open>The prompt merger\<close>

text \<open>ASCII white space, as \<^verbatim>\<open>trim\<close>, \<^verbatim>\<open>\s\<close> and \<^verbatim>\<open>parseInt\<close> skip it.\<close>

definition isWhiteSpace :: "char \<Rightarrow> bool" where
  "isWhiteSpace c = (c \<in> set [CHR 0x09, CHR 0x0A, CHR 0x0B, CHR 0x0C, CHR 0x0D, CHR '' ''])"

definition trim :: "string \<Rightarrow> string" where
  "trim s = rev (dropWhile isWhiteSpace (rev (dropWhile isWhiteSpace s)))"

text \<open>\<^verbatim>\<open>s.split('\n')\<close>: one piece more than there are separators.\<close>

fun splitOn :: "char \<Rightarrow> string \<Rightarrow> string list" where
  "splitOn sep [] = [[]]"
| "splitOn sep (c # cs) =
     (if c = sep then [] # splitOn sep cs
      else (case splitOn sep cs of [] \<Rightarrow> [[c]] | w # ws \<Rightarrow> (c # w) # ws))"

text \<open>
  Lines 336 to 347: the shots come from the nodes connected to the \<^verbatim>\<open>sequence\<close>
  handle when there is such an edge, and from the lines of the local field otherwise.
\<close>

definition sequenceEdges :: "store \<Rightarrow> string \<Rightarrow> edge list" where
  "sequenceEdges st nodeId =
     sort_key orderOf (filter (\<lambda>e. targetHandle e = Some ''sequence'')
                              (filter (\<lambda>e. target e = nodeId) (edges st)))"

definition shotOf :: "store \<Rightarrow> edge \<Rightarrow> string" where
  "shotOf st e = (case findNode st (source e) of None \<Rightarrow> []
                  | Some sourceNode \<Rightarrow>
                      orElse (strField (data sourceNode) ''content'')
                             (orElse (strField (data sourceNode) ''label'') []))"

definition resolveShots :: "store \<Rightarrow> node \<Rightarrow> string \<Rightarrow> string list" where
  "resolveShots st node nodeId =
     (let shots = filter (\<lambda>l. length (trim l) > 0)
                         (splitOn (CHR 0x0A) (orElse (strField (data node) ''sequenceContent'') []))
      in if length (sequenceEdges st nodeId) > 0
         then filter (\<lambda>s. s \<noteq> []) (map (shotOf st) (sequenceEdges st nodeId))
         else shots)"

text \<open>
  Lines 354 to 357:
  \<^verbatim>\<open>while (finalShots.length < targetLen) finalShots.push(finalShots[finalShots.length - 1])\<close>
\<close>

function padShots :: "'a list \<Rightarrow> nat \<Rightarrow> 'a list" where
  "padShots finalShots targetLen =
     (if length finalShots < targetLen
      then padShots (finalShots @ [last finalShots]) targetLen
      else finalShots)"
  by pat_completeness auto
termination
  by (relation "measure (\<lambda>(finalShots, targetLen). targetLen - length finalShots)") auto

declare padShots.simps [simp del]

text \<open>
  Lines 349 to 358, from the shot list and the node's \<^verbatim>\<open>gridType\<close> field to
  \<^verbatim>\<open>activeShots\<close>.
\<close>

definition activeShots :: "string list \<Rightarrow> string \<Rightarrow> error + string list" where
  "activeShots shots gridTypeField =
     (if length shots = 0 then Inl MissingSequenceContent
      else (let gridType = orElse gridTypeField ''3x3'';
                targetLen = (if gridType = ''3x3'' then 9 else 4);
                finalShots = padShots shots targetLen
            in Inr (take targetLen finalShots)))"

definition promptMerge_shots :: "store \<Rightarrow> node \<Rightarrow> string \<Rightarrow> error + string list" where
  "promptMerge_shots st node nodeId =
     activeShots (resolveShots st node nodeId) (strField (data node) ''gridType'')"

text \<open>A prompt merger on a 3x3 grid whose local field holds the lines A, a blank line and B.\<close>

definition mergeNode :: node where
  "mergeNode =
     \<lparr>node_id = ''m'', node_type = ''promptMerge'', node_position = \<lparr>pos_x = 0, pos_y = 0\<rparr>,
      data = [''gridType'' \<mapsto> JStr ''3x3'',
              ''sequenceContent'' \<mapsto> JStr [CHR ''A'', CHR 0x0A, CHR '' '', CHR 0x0A, CHR ''B'']]\<rparr>"

definition mergeStore :: store where
  "mergeStore = \<lparr>nodes = [mergeNode], edges = []\<rparr>"

subsection \<open>Example graphs\<close>

definition mkNode :: "string \<Rightarrow> string \<Rightarrow> (string \<rightharpoonup> jsval) \<Rightarrow> node" where
  "mkNode i ty d = \<lparr>node_id = i, node_type = ty, node_position = \<lparr>pos_x = 0, pos_y = 0\<rparr>, data = d\<rparr>"

definition mkImageEdge :: "string \<Rightarrow> string \<Rightarrow> int option \<Rightarrow> edge" where
  "mkImageEdge s t n =
     \<lparr>edge_id = ''e-'' @ s @ ''-'' @ t, source = s, target = t,
      sourceHandle = Some ''image'', targetHandle = Some ''image'',
      edata = Some \<lparr>order = n, data_targetHandle = Some ''image''\<rparr>\<rparr>"

text \<open>Two image inputs wired to one target; only the second carries a remark.\<close>

definition remarkStore :: store where
  "remarkStore =
     \<lparr>nodes = [mkNode ''a'' ''inputImage'' [''url'' \<mapsto> JStr ''http://img/a''],
               mkNode ''b'' ''inputImage''
                 [''url'' \<mapsto> JStr ''http://img/b'', ''remark'' \<mapsto> JStr ''the castle''],
               mkNode ''t'' ''aiExpert'' Map.empty],
      edges = [mkImageEdge ''a'' ''t'' (Some 1), mkImageEdge ''b'' ''t'' (Some 2)]\<rparr>"

text \<open>
  Five image inputs with the orders 3, missing, 2, 3 and 1, in this order in the edge
  collection.
\<close>

definition rankStore :: store where
  "rankStore =
     \<lparr>nodes = [mkNode ''a'' ''inputImage'' [''url'' \<mapsto> JStr ''http://img/a''],
               mkNode ''b'' ''inputImage'' [''url'' \<mapsto> JStr ''http://img/b''],
               mkNode ''c'' ''inputImage'' [''url'' \<mapsto> JStr ''http://img/c''],
               mkNode ''d'' ''inputImage'' [''url'' \<mapsto> JStr ''http://img/d''],
               mkNode ''e'' ''inputImage'' [''url'' \<mapsto> JStr ''http://img/e''],
               mkNode ''t'' ''aiImageGen'' Map.empty],
      edges = [mkImageEdge ''a'' ''t'' (Some 3), mkImageEdge ''b'' ''t'' None,
               mkImageEdge ''c'' ''t'' (Some 2), mkImageEdge ''d'' ''t'' (Some 3),
               mkImageEdge ''e'' ''t'' (Some 1)]\<rparr>"

subsection \<open>Finishing a run\<close>

text \<open>
  \<^verbatim>\<open>parseFloat(runDuration.toFixed(1))\<close>: one decimal, ties away from zero.
\<close>

definition toFixed1 :: "rat \<Rightarrow> rat" where
  "toFixed1 q = (if q < 0 then - (of_int \<lfloor>(- q) * 10 + 1 / 2\<rfloor> / 10)
                 else of_int \<lfloor>q * 10 + 1 / 2\<rfloor> / 10)"

text \<open>
  The patch executeNode writes before the \<^verbatim>\<open>try\<close> block (lines 308 to 314). The key
  \<^verbatim>\<open>duration\<close> is present with the value \<^verbatim>\<open>undefined\<close>.
\<close>

definition startPatch :: "rat \<Rightarrow> (string \<rightharpoonup> jsval)" where
  "startPatch runStartTime =
     [''status'' \<mapsto> JStr ''loading'', ''progress'' \<mapsto> JNum 0, ''statusMsg'' \<mapsto> JStr ''Running...'',
      ''startTime'' \<mapsto> JNum runStartTime, ''duration'' \<mapsto> JUndefined]"

text \<open>
  \<^verbatim>\<open>finalizeNode\<close> (lines 316 to 323); \<open>now\<close> is what \<^verbatim>\<open>Date.now()\<close> returns when it runs.
  \<^verbatim>\<open>{ status, duration, ...additionalData }\<close>: the additional data override.
\<close>

definition finalizeNode ::
  "rat \<Rightarrow> rat \<Rightarrow> string \<Rightarrow> string \<Rightarrow> (string \<rightharpoonup> jsval) \<Rightarrow> store \<Rightarrow> store" where
  "finalizeNode runStartTime now nodeId status additionalData st =
     (let runDuration = (now - runStartTime) / 1000
      in updateNodeData nodeId
           ([''status'' \<mapsto> JStr status, ''duration'' \<mapsto> JNum (toFixed1 runDuration)]
              ++ additionalData) st)"

text \<open>
  The frame of executeNode around a handler: the early return (lines 271 and 272), the
  input resolution, the start patch, and the \<^verbatim>\<open>try\<close> block with its \<^verbatim>\<open>catch\<close> (lines 716
  to 718). A handler returns the store it has written so far and either \<open>Inr ()\<close> or the
  error it threw.
\<close>

definition runNode ::
  "(node \<Rightarrow> incoming \<Rightarrow> store \<Rightarrow> store \<times> (error + unit)) \<Rightarrow> rat \<Rightarrow> rat \<Rightarrow> string \<Rightarrow> store \<Rightarrow> store"
  where
  "runNode handler runStartTime now nodeId st =
     (case findNode st nodeId of
        None \<Rightarrow> st
      | Some node \<Rightarrow>
          if node_type node \<in> set [''inputText'', ''inputImage'', ''outputResult'', ''imageProcessing'']
          then st
          else (let inputs = getIncomingData st nodeId;
                    st1 = updateNodeData nodeId (startPatch runStartTime) st
                in case handler node inputs st1 of
                     (st2, Inl err) \<Rightarrow>
                       finalizeNode runStartTime now nodeId ''error''
                         [''statusMsg'' \<mapsto> message err] st2
                   | (st2, Inr u) \<Rightarrow> st2))"

text \<open>The status fields of the first node with a given id.\<close>

definition statusOf :: "store \<Rightarrow> string \<Rightarrow> string" where
  "statusOf st i = (case findNode st i of None \<Rightarrow> [] | Some n \<Rightarrow> strField (data n) ''status'')"

definition statusMsgOf :: "store \<Rightarrow> string \<Rightarrow> jsval option" where
  "statusMsgOf st i = (case findNode st i of None \<Rightarrow> None | Some n \<Rightarrow> data n ''statusMsg'')"

subsection \<open>Uploads\<close>

text \<open>
  \<^verbatim>\<open>uploadToImgBB\<close> (apiService.ts, lines 35 to 55). Its first argument here is what the
  imgBB server answers (or the rejection of the request); the result is the pair
  \<^verbatim>\<open>{ url, mediumUrl }\<close>.
\<close>

record imgbb_result =
  ib_success :: bool
  ib_error_message :: string
  ib_url :: string
  ib_medium_url :: string
  ib_display_url :: string

definition uploadToImgBB :: "error + imgbb_result \<Rightarrow> string \<Rightarrow> error + string \<times> string" where
  "uploadToImgBB server apiKey =
     (if apiKey = [] then Inl MissingImgbbKey
      else (case server of
              Inl e \<Rightarrow> Inl e
            | Inr result \<Rightarrow>
                if \<not> ib_success result
                then Inl (Failure (JStr (orElse (ib_error_message result) ''<u4e0a><u4f20><u5931><u8d25>'')))
                else Inr (ib_url result,
                          orElse (ib_medium_url result)
                            (orElse (ib_display_url result) (ib_url result)))))"

subsection \<open>The image splitter\<close>

definition isDigit :: "char \<Rightarrow> bool" where
  "isDigit c = (48 \<le> (of_char c :: nat) \<and> (of_char c :: nat) \<le> 57)"

definition digitsValue :: "string \<Rightarrow> int" where
  "digitsValue ds = foldl (\<lambda>a c. 10 * a + (int (of_char c) - 48)) 0 ds"

text \<open>
  \<^verbatim>\<open>parseInt(s, 10)\<close>: leading white space is skipped, then an optional sign, then the
  longest run of decimal digits; what follows is ignored. \<open>None\<close> is NaN (no digit).
  The value is the exact integer: JavaScript rounds a digit string beyond 2^53, which
  stays far above every cell count and every percentage.
\<close>

definition parseInt :: "string \<Rightarrow> int option" where
  "parseInt s =
     (let t = dropWhile isWhiteSpace s;
          sign = (case t of c # cs \<Rightarrow> if c = CHR ''-'' then - 1 else 1 | [] \<Rightarrow> (1 :: int));
          r = (case t of c # cs \<Rightarrow> if c = CHR ''-'' \<or> c = CHR ''+'' then cs else t | [] \<Rightarrow> []);
          ds = takeWhile isDigit r
      in if ds = [] then None else Some (sign * digitsValue ds))"

text \<open>
  \<^verbatim>\<open>s.split(/[,\s]+/)\<close>: the pieces between maximal runs of commas and white space. A
  separator followed by another separator belongs to the same run; a run at the start
  or at the end of the string leaves an empty piece there.
\<close>

definition isSeparator :: "char \<Rightarrow> bool" where
  "isSeparator c = (c = CHR '','' \<or> isWhiteSpace c)"

fun splitSeparators :: "string \<Rightarrow> string list" where
  "splitSeparators [] = [[]]"
| "splitSeparators (c # cs) =
     (if isSeparator c
      then (case cs of
              [] \<Rightarrow> [] # splitSeparators cs
            | d # ds \<Rightarrow> if isSeparator d then splitSeparators cs else [] # splitSeparators cs)
      else (case splitSeparators cs of [] \<Rightarrow> [[c]] | w # ws \<Rightarrow> (c # w) # ws))"

text \<open>
  Lines 414 to 419. \<^verbatim>\<open>Array.from({ length: totalCells }, (_, i) => i + 1)\<close> on one side,
  \<^verbatim>\<open>split\<close>, \<^verbatim>\<open>map(parseInt)\<close> and the range \<^verbatim>\<open>filter\<close> on the other.
\<close>

definition inRange :: "int \<Rightarrow> int option \<Rightarrow> bool" where
  "inRange totalCells n = (case n of None \<Rightarrow> False | Some v \<Rightarrow> v \<ge> 1 \<and> v \<le> totalCells)"

definition indicesToExtract :: "string \<Rightarrow> nat \<Rightarrow> int list" where
  "indicesToExtract selectStr totalCells =
     (if trim selectStr = ''0''
      then map (\<lambda>i. int i + 1) [0..<totalCells]
      else List.map_filter (\<lambda>n. n)
             (filter (inRange (int totalCells)) (map parseInt (splitSeparators selectStr))))"

text \<open>The integers a selection string holds: every piece that starts like a number.\<close>

definition parsedIntegers :: "string \<Rightarrow> int list" where
  "parsedIntegers selectStr = List.map_filter parseInt (splitSeparators selectStr)"

text \<open>Decimal digits of a natural number, for \<^verbatim>\<open>`split_${idx + 1}`\<close> and the cell label.\<close>

fun showNat :: "nat \<Rightarrow> string" where
  "showNat n = (if n < 10 then [char_of (48 + n)]
                else showNat (n div 10) @ [char_of (48 + n mod 10)])"

declare showNat.simps [simp del]

text \<open>
  The rectangle \<^verbatim>\<open>drawImage\<close> copies for the cell with 1-based index \<open>index\<close>
  (lines 431 to 438).
\<close>

record rect =
  rect_sx :: rat
  rect_sy :: rat
  rect_sw :: rat
  rect_sh :: rat

definition cellRect :: "int \<Rightarrow> rat \<Rightarrow> rat \<Rightarrow> rat \<Rightarrow> int \<Rightarrow> rect" where
  "cellRect cols cellW cellH trm index =
     (let idx = index - 1;
          r = idx div cols;
          c = idx mod cols
      in \<lparr>rect_sx = of_int c * cellW + trm, rect_sy = of_int r * cellH + trm,
          rect_sw = cellW - trm * 2, rect_sh = cellH - trm * 2\<rparr>)"

text \<open>
  The blob of a cell: the pixels of the decoded image of \<open>crop_src\<close> inside \<open>crop_rect\<close>,
  as \<^verbatim>\<open>drawImage\<close> copies them to the canvas and \<^verbatim>\<open>toBlob\<close> encodes them.
\<close>

record crop =
  crop_src :: string
  crop_rect :: rect

text \<open>
  What the splitter asks of the outside: decoding an image URL to its width and height
  (or failing to load it), a 2d canvas context, the imgBB server's answer for a blob
  uploaded under a name, the key from the settings, and the run's fresh identifiers.
\<close>

record split_io =
  io_decode :: "string \<Rightarrow> error + nat \<times> nat"
  io_context :: bool
  io_imgbb :: "crop \<Rightarrow> string \<Rightarrow> error + imgbb_result"
  io_imgbbKey :: string
  io_uuid :: "nat \<Rightarrow> string"

record split_ctx =
  cx_nodeId :: string
  cx_position :: position
  cx_sourceUrl :: string
  cx_cols :: int
  cx_cellW :: rat
  cx_cellH :: rat
  cx_trim :: rat
  cx_count :: nat

definition cellNode :: "split_ctx \<Rightarrow> nat \<Rightarrow> int \<Rightarrow> string \<Rightarrow> string \<Rightarrow> string \<Rightarrow> node" where
  "cellNode cx i index resultId url mediumUrl =
     \<lparr>node_id = resultId, node_type = ''outputResult'',
      node_position =
        \<lparr>pos_x = pos_x (cx_position cx) + 400,
         pos_y = pos_y (cx_position cx) + of_nat i * 220 - (of_nat (cx_count cx) - 1) * 110\<rparr>,
      data = [''type'' \<mapsto> JStr ''image'', ''label'' \<mapsto> JStr (''<u683c> '' @ showNat (nat index)),
              ''url'' \<mapsto> JStr url, ''mediumUrl'' \<mapsto> JStr mediumUrl, ''status'' \<mapsto> JStr ''idle'']\<rparr>"

definition cellEdge :: "split_ctx \<Rightarrow> string \<Rightarrow> edge" where
  "cellEdge cx resultId =
     \<lparr>edge_id = ''e-'' @ cx_nodeId cx @ ''-'' @ resultId, source = cx_nodeId cx, target = resultId,
      sourceHandle = Some ''image'', targetHandle = Some ''image'',
      edata = Some \<lparr>order = None, data_targetHandle = Some ''image''\<rparr>\<rparr>"

text \<open>
  The loop of lines 430 to 469, from iteration \<open>i\<close> on: the indices still to extract,
  the output nodes and edges collected so far, the store.
\<close>

fun splitLoop ::
  "split_io \<Rightarrow> split_ctx \<Rightarrow> nat \<Rightarrow> int list \<Rightarrow> node list \<Rightarrow> edge list \<Rightarrow> store
     \<Rightarrow> store \<times> (error + node list \<times> edge list)" where
  "splitLoop io cx i [] newOutputNodes newOutputEdges st =
     (st, Inr (newOutputNodes, newOutputEdges))"
| "splitLoop io cx i (index # rest) newOutputNodes newOutputEdges st =
     (let rc = cellRect (cx_cols cx) (cx_cellW cx) (cx_cellH cx) (cx_trim cx) index
      in if rect_sw rc \<le> 0 \<or> rect_sh rc \<le> 0 then (st, Inl TrimTooLarge)
         else (case uploadToImgBB
                      (io_imgbb io \<lparr>crop_src = cx_sourceUrl cx, crop_rect = rc\<rparr>
                         (''split_'' @ showNat (nat index)))
                      (io_imgbbKey io) of
                 Inl e \<Rightarrow> (st, Inl e)
               | Inr (url, mediumUrl) \<Rightarrow>
                   (let resultId = io_uuid io i;
                        newNode = cellNode cx i index resultId url mediumUrl;
                        newEdge = cellEdge cx resultId;
                        st' = updateNodeData (cx_nodeId cx)
                                [''progress'' \<mapsto>
                                   JNum (of_int \<lfloor>(of_nat (i + 1) / of_nat (cx_count cx)) * (100 :: rat)\<rfloor>)]
                                st
                    in splitLoop io cx (i + 1) rest (newOutputNodes @ [newNode])
                         (newOutputEdges @ [newEdge]) st')))"

text \<open>
  The handler (lines 391 to 478). \<open>node\<close> is the snapshot executeNode took before the
  start patch; \<open>finish\<close> is \<^verbatim>\<open>finalizeNode\<close> with the run's clock readings.
\<close>

definition imageSplit ::
  "split_io \<Rightarrow> (string \<Rightarrow> string \<Rightarrow> (string \<rightharpoonup> jsval) \<Rightarrow> store \<Rightarrow> store) \<Rightarrow> string
     \<Rightarrow> node \<Rightarrow> incoming \<Rightarrow> store \<Rightarrow> store \<times> (error + unit)" where
  "imageSplit io finish nodeId node inputs st =
     (case images inputs of
        [] \<Rightarrow> (st, Inl MissingInputImage)
      | sourceUrl # others \<Rightarrow>
          (let st1 = updateNodeData nodeId [''statusMsg'' \<mapsto> JStr ''Processing Split...''] st;
               gridType = orElse (strField (data node) ''gridType'') ''2x2'';
               selectStr = orElse (strField (data node) ''gridSelect'') ''0'';
               trm = (case numField (data node) ''gridTrim'' of None \<Rightarrow> 10 | Some t \<Rightarrow> t)
           in case io_decode io sourceUrl of
                Inl e \<Rightarrow> (st1, Inl e)
              | Inr (width, height) \<Rightarrow>
                  (let cols = (if gridType = ''3x3'' then 3 else 2 :: nat);
                       rows = cols;
                       cellW = of_nat width / of_nat cols;
                       cellH = of_nat height / of_nat rows;
                       totalCells = cols * rows;
                       indices = indicesToExtract selectStr totalCells
                   in if length indices = 0 then (st1, Inl NoValidIndex)
                      else if \<not> io_context io then (st1, Inl CanvasContextFailed)
                      else (case splitLoop io
                                   \<lparr>cx_nodeId = nodeId, cx_position = node_position node,
                                    cx_sourceUrl = sourceUrl, cx_cols = int cols, cx_cellW = cellW,
                                    cx_cellH = cellH, cx_trim = trm, cx_count = length indices\<rparr>
                                   0 indices [] [] st1 of
                              (st2, Inl e) \<Rightarrow> (st2, Inl e)
                            | (st2, Inr (newOutputNodes, newOutputEdges)) \<Rightarrow>
                                (finish nodeId ''success'' [''statusMsg'' \<mapsto> JStr ''Split Done'']
                                   (setEdges (edges st2 @ newOutputEdges)
                                      (setNodes (nodes st2 @ newOutputNodes) st2)),
                                 Inr ())))))"

text \<open>executeNode on a node of type \<^verbatim>\<open>imageSplit\<close>.\<close>

definition executeNode_imageSplit :: "split_io \<Rightarrow> rat \<Rightarrow> rat \<Rightarrow> string \<Rightarrow> store \<Rightarrow> store" where
  "executeNode_imageSplit io runStartTime now nodeId st =
     runNode (imageSplit io (finalizeNode runStartTime now) nodeId) runStartTime now nodeId st"

text \<open>What the splitter reads from its node: lines 396 to 398 and 408.\<close>

definition gridSelect :: "node \<Rightarrow> string" where
  "gridSelect node = orElse (strField (data node) ''gridSelect'') ''0''"

definition gridTrim :: "node \<Rightarrow> rat" where
  "gridTrim node = (case numField (data node) ''gridTrim'' of None \<Rightarrow> 10 | Some t \<Rightarrow> t)"

definition gridCols :: "node \<Rightarrow> nat" where
  "gridCols node = (if orElse (strField (data node) ''gridType'') ''2x2'' = ''3x3'' then 3 else 2)"

text \<open>
  A splitter \<open>s\<close> fed by one image node, and an outside where every image is 600 by 600
  pixels and every upload succeeds.
\<close>

definition splitStore :: "(string \<rightharpoonup> jsval) \<Rightarrow> store" where
  "splitStore config =
     \<lparr>nodes = [mkNode ''img'' ''inputImage'' [''url'' \<mapsto> JStr ''http://img/grid''],
               mkNode ''s'' ''imageSplit'' config],
      edges = [mkImageEdge ''img'' ''s'' (Some 1)]\<rparr>"

definition splitIo :: split_io where
  "splitIo =
     \<lparr>io_decode = (\<lambda>u. Inr (600, 600)), io_context = True,
      io_imgbb = (\<lambda>c name. Inr \<lparr>ib_success = True, ib_error_message = [],
                                ib_url = ''http://host/'' @ name, ib_medium_url = [],
                                ib_display_url = []\<rparr>),
      io_imgbbKey = ''key'', io_uuid = (\<lambda>i. ''id'' @ showNat i)\<rparr>"

text \<open>A 2 by 2 grid, all cells, with a trim of 160 pixels.\<close>

definition trimConfig :: "string \<rightharpoonup> jsval" where
  "trimConfig =
     [''gridType'' \<mapsto> JStr ''2x2'', ''gridSelect'' \<mapsto> JStr ''0'', ''gridTrim'' \<mapsto> JNum 160]"

text \<open>
  A 2 by 2 grid, cells 2 and 3, with a trim of 10 pixels; an outside whose upload answers
  with a URL that tells whether the blob is 280 by 280 pixels; a bundle of one image.
\<close>

definition cropConfig :: "string \<rightharpoonup> jsval" where
  "cropConfig =
     [''gridType'' \<mapsto> JStr ''2x2'', ''gridSelect'' \<mapsto> JStr ''2,3'', ''gridTrim'' \<mapsto> JNum 10]"

definition cropIo :: split_io where
  "cropIo =
     \<lparr>io_decode = (\<lambda>u. Inr (600, 600)), io_context = True,
      io_imgbb = (\<lambda>c name. Inr \<lparr>ib_success = True, ib_error_message = [],
                                ib_url = (if rect_sw (crop_rect c) = 280 \<and> rect_sh (crop_rect c) = 280
                                          then ''http://host/280x280/'' else ''http://host/other/'')
                                         @ name,
                                ib_medium_url = [], ib_display_url = []\<rparr>),
      io_imgbbKey = ''key'', io_uuid = (\<lambda>i. ''id'' @ showNat i)\<rparr>"

definition oneImage :: incoming where
  "oneImage = \<lparr>texts = [], images = [''http://img/grid''], imageRemarks = []\<rparr>"

definition cropNode :: node where
  "cropNode = mkNode ''s'' ''imageSplit'' cropConfig"

subsection \<open>Video submissions\<close>

text \<open>
  \<^verbatim>\<open>prepareVeoPayload\<close> (apiService.ts, lines 57 to 114). An optional string parameter is
  the empty string when absent; \<^verbatim>\<open>urls: null\<close> is \<open>None\<close>; the
  \<^verbatim>\<open>parseInt\<close> of the duration is \<open>None\<close> when it is NaN.
\<close>

record veo_params =
  vp_model :: string
  vp_prompt :: string
  vp_urls :: "string list"
  vp_aspectRatio :: string
  vp_resolution :: string
  vp_durationSeconds :: string

record veo_payload =
  veo_model :: string
  veo_aspectRatio :: string
  veo_firstFrameUrl :: string
  veo_lastFrameUrl :: string
  veo_urls :: "string list option"
  veo_prompt :: string
  veo_resolution :: string
  veo_durationSeconds :: "int option"
  veo_personGeneration :: string
  veo_webhook :: string
  veo_shutProgress :: bool
  veo_cdn :: string

record sora_payload =
  sora_model :: string
  sora_prompt :: string
  sora_aspectRatio :: string
  sora_url :: string
  sora_duration :: int
  sora_size :: string
  sora_webhook :: string
  sora_shutProgress :: bool

datatype grsai_payload = Veo veo_payload | Sora sora_payload

definition prepareVeoPayload :: "veo_params \<Rightarrow> grsai_payload" where
  "prepareVeoPayload params =
     (let model = vp_model params; prompt = vp_prompt params; aspectRatio = vp_aspectRatio params;
          urls = vp_urls params; resolution = vp_resolution params;
          durationSeconds = vp_durationSeconds params;
          payload0 =
            \<lparr>veo_model = model, veo_aspectRatio = aspectRatio, veo_firstFrameUrl = [],
             veo_lastFrameUrl = [], veo_urls = None, veo_prompt = prompt,
             veo_resolution = orElse resolution ''720p'',
             veo_durationSeconds = (if durationSeconds \<noteq> [] then parseInt durationSeconds else Some 6),
             veo_personGeneration = (if length urls > 0 then ''allow_adult'' else ''allow_all''),
             veo_webhook = ''-1'', veo_shutProgress = False, veo_cdn = []\<rparr>;
          payload =
            (if length urls = 1
             then payload0\<lparr>veo_firstFrameUrl := urls ! 0, veo_lastFrameUrl := [], veo_urls := None\<rparr>
             else if length urls = 2
             then payload0\<lparr>veo_firstFrameUrl := urls ! 0, veo_lastFrameUrl := urls ! 1,
                           veo_urls := None\<rparr>
             else if length urls \<ge> 3
             then payload0\<lparr>veo_firstFrameUrl := [], veo_lastFrameUrl := [],
                           veo_urls := Some (take 3 urls)\<rparr>
             else payload0\<lparr>veo_firstFrameUrl := [], veo_lastFrameUrl := [], veo_urls := None\<rparr>)
      in if model = ''sora-2''
         then Sora \<lparr>sora_model = model, sora_prompt = prompt, sora_aspectRatio = aspectRatio,
                    sora_url = (case urls of [] \<Rightarrow> [] | u # us \<Rightarrow> orElse u []),
                    sora_duration = 10, sora_size = ''small'', sora_webhook = ''-1'',
                    sora_shutProgress = False\<rparr>
         else Veo payload)"

text \<open>
  \<^verbatim>\<open>grsaiVideo\<close> (lines 141 to 175) posts the prepared payload to the endpoint of the
  model: the request it sends.
\<close>

definition grsaiVideo_request :: "veo_params \<Rightarrow> string \<times> grsai_payload" where
  "grsaiVideo_request params =
     (if vp_model params = ''sora-2'' then ''/v1/video/sora-video'' else ''/v1/video/veo'',
      prepareVeoPayload params)"

text \<open>\<^verbatim>\<open>comflyVideo\<close> (lines 191 to 222): the payload it posts. \<open>None\<close> is \<^verbatim>\<open>undefined\<close>.\<close>

record comfly_video_params =
  cvp_model :: string
  cvp_prompt :: string
  cvp_urls :: "string list option"
  cvp_aspectRatio :: string
  cvp_enable_upsample :: "bool option"

record comfly_video_payload =
  cv_prompt :: string
  cv_model :: string
  cv_aspect_ratio :: string
  cv_images :: "string list option"
  cv_enable_upsample :: "bool option"

definition comflyVideo_payload :: "comfly_video_params \<Rightarrow> comfly_video_payload" where
  "comflyVideo_payload params =
     \<lparr>cv_prompt = cvp_prompt params, cv_model = cvp_model params,
      cv_aspect_ratio = (if cvp_aspectRatio params = ''1:1'' then ''16:9'' else cvp_aspectRatio params),
      cv_images = (case cvp_urls params of
                     None \<Rightarrow> None
                   | Some urls \<Rightarrow> if length urls > 0 then Some urls else None),
      cv_enable_upsample = cvp_enable_upsample params\<rparr>"

text \<open>
  The video branch of executeNode up to the submission (lines 639 to 658 and 685 to
  693): the status message of the mode and the request that goes to the provider.
  \<open>fullPrompt\<close> and \<open>targetAspectRatio\<close> are the values computed at lines 299 to 305.
\<close>

definition modeMsg :: "string list \<Rightarrow> string" where
  "modeMsg imgs =
     (if length imgs = 1 then ''First Frame Mode...''
      else if length imgs = 2 then ''I2V Start-End Mode...''
      else if length imgs \<ge> 3 then ''Reference Image Mode...''
      else ''Generating...'')"

datatype video_request =
    ComflyVideo comfly_video_payload
  | GrsaiVideo string grsai_payload

definition startsWith :: "string \<Rightarrow> string \<Rightarrow> bool" where
  "startsWith s p = (take (length p) s = p)"

definition videoRequest :: "node \<Rightarrow> incoming \<Rightarrow> string \<Rightarrow> string \<Rightarrow> video_request" where
  "videoRequest node inputs fullPrompt targetAspectRatio =
     (let model = strField (data node) ''model'';
          isComfly = startsWith model ''comfly:'';
          actualModel = (if isComfly
                         then (case splitOn (CHR '':'') model of a # b # rest \<Rightarrow> b | _ \<Rightarrow> [])
                         else orElse model ''veo3.1-fast'')
      in if isComfly
         then ComflyVideo (comflyVideo_payload
                \<lparr>cvp_model = actualModel, cvp_prompt = orElse fullPrompt ''Cinematic masterpiece'',
                 cvp_urls = Some (images inputs), cvp_aspectRatio = targetAspectRatio,
                 cvp_enable_upsample =
                   (if strField (data node) ''resolution'' = ''1080p'' \<and> actualModel = ''veo3.1-fast''
                    then Some True else None)\<rparr>)
         else (case grsaiVideo_request
                      \<lparr>vp_model = actualModel, vp_prompt = orElse fullPrompt ''Cinematic masterpiece'',
                       vp_urls = images inputs, vp_aspectRatio = targetAspectRatio,
                       vp_resolution = strField (data node) ''resolution'',
                       vp_durationSeconds = strField (data node) ''durationSeconds''\<rparr> of
                 (endpoint, payload) \<Rightarrow> GrsaiVideo endpoint payload))"

text \<open>
  What a request hands to the provider as images: a first frame, a last frame and a
  reference set on the GRSAI Veo endpoint, one URL on the Sora endpoint, one list on the
  Comfly endpoint.
\<close>

datatype submitted =
    Frames string string "string list option"
  | SingleUrl string
  | ImageList "string list option"

definition submittedImages :: "video_request \<Rightarrow> submitted" where
  "submittedImages rq =
     (case rq of
        ComflyVideo p \<Rightarrow> ImageList (cv_images p)
      | GrsaiVideo endpoint (Veo p) \<Rightarrow> Frames (veo_firstFrameUrl p) (veo_lastFrameUrl p) (veo_urls p)
      | GrsaiVideo endpoint (Sora p) \<Rightarrow> SingleUrl (sora_url p))"

text \<open>
  The positional reading of claim C5, by the number of resolved images alone: nothing,
  a first frame, a first and last frame, or the first three as a reference set.
\<close>

definition positional :: "string list \<Rightarrow> submitted" where
  "positional imgs =
     (if length imgs = 0 then Frames [] [] None
      else if length imgs = 1 then Frames (imgs ! 0) [] None
      else if length imgs = 2 then Frames (imgs ! 0) (imgs ! 1) None
      else Frames [] [] (Some (take 3 imgs)))"

definition videoNode :: "string \<Rightarrow> node" where
  "videoNode model = mkNode ''v'' ''aiVideoGen'' [''model'' \<mapsto> JStr model]"

definition fourImages :: incoming where
  "fourImages = \<lparr>texts = [], images = [''u1'', ''u2'', ''u3'', ''u4''], imageRemarks = []\<rparr>"

subsection \<open>Polling\<close>

text \<open>
  Every asynchronous provider path defines a function \<^verbatim>\<open>poll\<close> and calls it without
  \<^verbatim>\<open>await\<close>; \<^verbatim>\<open>poll\<close> calls itself again through \<^verbatim>\<open>setTimeout\<close>. One call of \<^verbatim>\<open>poll\<close> is one
  step: it returns the store it has written and what follows. \<open>Stop\<close>: the call returned
  and scheduled nothing. \<open>Again d\<close>: it scheduled the next call after \<open>d\<close> milliseconds.
  \<open>Unhandled e\<close>: it threw \<open>e\<close>; the promise of an \<^verbatim>\<open>async\<close> function that nobody awaits is
  rejected, no \<^verbatim>\<open>catch\<close> clause runs and nothing is scheduled.
\<close>

datatype poll_next = Stop | Again nat | Unhandled error

text \<open>
  What a step asks of the outside: the bytes behind a URL (\<^verbatim>\<open>fetch\<close>, then \<^verbatim>\<open>blob\<close>), the
  imgBB server's answer for uploaded bytes, the key from the settings, a fresh
  identifier, the clock, and \<^verbatim>\<open>addEdge\<close> of the reactflow library.
\<close>

record poll_io =
  pio_fetch :: "string \<Rightarrow> error + string"
  pio_imgbb :: "string \<Rightarrow> error + imgbb_result"
  pio_imgbbKey :: string
  pio_uuid :: string
  pio_now :: rat
  pio_addEdge :: "edge \<Rightarrow> edge list \<Rightarrow> edge list"

text \<open>
  The three statements that end every completion: a fresh id, \<^verbatim>\<open>addNode\<close> of an
  \<^verbatim>\<open>outputResult\<close> node to the right of the source, \<^verbatim>\<open>storeOnConnect\<close> of an edge to it.
\<close>

definition addResult ::
  "poll_io \<Rightarrow> string \<Rightarrow> node \<Rightarrow> string \<Rightarrow> (string \<rightharpoonup> jsval) \<Rightarrow> store \<Rightarrow> store" where
  "addResult io nodeId node kind payload st =
     (let resultId = pio_uuid io;
          st1 = addNode
                  \<lparr>node_id = resultId, node_type = ''outputResult'',
                   node_position = \<lparr>pos_x = pos_x (node_position node) + 400,
                                    pos_y = pos_y (node_position node)\<rparr>,
                   data = [''type'' \<mapsto> JStr kind] ++ payload ++ [''status'' \<mapsto> JStr ''idle'']\<rparr> st
      in st1\<lparr>edges := pio_addEdge io
                          \<lparr>edge_id = ''e-'' @ nodeId @ ''-'' @ resultId, source = nodeId,
                           target = resultId, sourceHandle = Some kind, targetHandle = Some kind,
                           edata = None\<rparr>
                          (edges st1)\<rparr>)"

definition toUpperCase :: "string \<Rightarrow> string" where
  "toUpperCase s =
     map (\<lambda>c. if 97 \<le> (of_char c :: nat) \<and> (of_char c :: nat) \<le> 122
              then char_of ((of_char c :: nat) - 32) else c) s"

definition showInt :: "int \<Rightarrow> string" where
  "showInt i = (if i < 0 then ''-'' @ showNat (nat (- i)) else showNat (nat i))"

text \<open>\<^verbatim>\<open>s.replace('%', '')\<close>: the first percent sign goes.\<close>

fun removeFirst :: "char \<Rightarrow> string \<Rightarrow> string" where
  "removeFirst c [] = []"
| "removeFirst c (d # ds) = (if d = c then ds else d # removeFirst c ds)"

text \<open>
  The result object of the GRSAI poll (\<^verbatim>\<open>pollGrsaiResult\<close> returns \<^verbatim>\<open>data.data\<close>): the
  properties the engine reads, an integer percentage or none, and in \<open>gr_other\<close> every
  other property the provider sends.
\<close>

record grsai_result =
  gr_status :: string
  gr_progress :: "int option"
  gr_url :: string
  gr_results0_url :: string
  gr_other :: "string \<rightharpoonup> jsval"

definition progressPatch :: "int option \<Rightarrow> (string \<rightharpoonup> jsval)" where
  "progressPatch p =
     (case p of
        None \<Rightarrow> [''progress'' \<mapsto> JUndefined, ''statusMsg'' \<mapsto> JStr ''undefined%'']
      | Some n \<Rightarrow> [''progress'' \<mapsto> JNum (of_int n), ''statusMsg'' \<mapsto> JStr (showInt n @ ''%'')])"

text \<open>The poll of the GRSAI image path (App.tsx, lines 616 to 634).\<close>

definition pollGrsaiDraw ::
  "poll_io \<Rightarrow> rat \<Rightarrow> string \<Rightarrow> node \<Rightarrow> error + grsai_result \<Rightarrow> store \<Rightarrow> store \<times> poll_next" where
  "pollGrsaiDraw io runStartTime nodeId node response st =
     (case response of
        Inl e \<Rightarrow> (st, Unhandled e)
      | Inr result \<Rightarrow>
          if gr_status result = ''failed''
          then (finalizeNode runStartTime (pio_now io) nodeId ''error''
                  [''statusMsg'' \<mapsto> JStr ''Violated/Failed''] st, Stop)
          else if gr_status result = ''succeeded''
          then (case pio_fetch io (gr_results0_url result) of
                  Inl e \<Rightarrow> (st, Unhandled e)
                | Inr blob \<Rightarrow>
                    (case uploadToImgBB (pio_imgbb io blob) (pio_imgbbKey io) of
                       Inl e \<Rightarrow> (st, Unhandled e)
                     | Inr (url, mediumUrl) \<Rightarrow>
                         (addResult io nodeId node ''image''
                            [''url'' \<mapsto> JStr url, ''mediumUrl'' \<mapsto> JStr mediumUrl]
                            (finalizeNode runStartTime (pio_now io) nodeId ''success''
                               [''url'' \<mapsto> JStr url, ''mediumUrl'' \<mapsto> JStr mediumUrl,
                                ''progress'' \<mapsto> JNum 100, ''statusMsg'' \<mapsto> JStr ''Done''] st),
                          Stop)))
          else (updateNodeData nodeId (progressPatch (gr_progress result)) st, Again 3000))"

text \<open>The poll of the GRSAI video path (lines 695 to 712).\<close>

definition pollGrsaiVideo ::
  "poll_io \<Rightarrow> rat \<Rightarrow> string \<Rightarrow> node \<Rightarrow> error + grsai_result \<Rightarrow> store \<Rightarrow> store \<times> poll_next" where
  "pollGrsaiVideo io runStartTime nodeId node response st =
     (case response of
        Inl e \<Rightarrow> (st, Unhandled e)
      | Inr result \<Rightarrow>
          if gr_status result = ''failed''
          then (finalizeNode runStartTime (pio_now io) nodeId ''error''
                  [''statusMsg'' \<mapsto> JStr ''Generation Failed''] st, Stop)
          else if gr_status result = ''succeeded''
          then (let url = orElse (gr_url result) (gr_results0_url result)
                in (addResult io nodeId node ''video'' [''url'' \<mapsto> JStr url]
                      (finalizeNode runStartTime (pio_now io) nodeId ''success''
                         [''url'' \<mapsto> JStr url, ''progress'' \<mapsto> JNum 100,
                          ''statusMsg'' \<mapsto> JStr ''Success''] st),
                    Stop))
          else (updateNodeData nodeId (progressPatch (gr_progress result)) st, Again 3000))"

text \<open>
  The task object of the Comfly image poll, \<^verbatim>\<open>resObj.data || resObj\<close>: its string
  properties, empty when absent; \<open>ct_data_url\<close> is \<^verbatim>\<open>taskInfo.data?.data?.[0]?.url\<close>.
\<close>

record comfly_task =
  ct_status :: string
  ct_state :: string
  ct_data_url :: string
  ct_url :: string
  ct_result :: string
  ct_fail_reason :: string
  ct_progress :: string

definition isDoneStatus :: "string \<Rightarrow> bool" where
  "isDoneStatus rawStatus =
     (rawStatus \<in> set [''SUCCESS'', ''FINISHED'', ''SUCCEEDED'', ''COMPLETED'', ''DONE''])"

text \<open>The poll of the Comfly image path (lines 555 to 593).\<close>

definition pollComflyImage ::
  "poll_io \<Rightarrow> rat \<Rightarrow> string \<Rightarrow> node \<Rightarrow> error + comfly_task \<Rightarrow> store \<Rightarrow> store \<times> poll_next" where
  "pollComflyImage io runStartTime nodeId node response st =
     (case response of
        Inl e \<Rightarrow> (st, Unhandled e)
      | Inr taskInfo \<Rightarrow>
          (let rawStatus = toUpperCase (orElse (ct_status taskInfo) (orElse (ct_state taskInfo) []));
               isDone = isDoneStatus rawStatus;
               isFailed = (rawStatus \<in> set [''FAILED'', ''ERROR'', ''FAILURE'']);
               remoteUrl = orElse (ct_data_url taskInfo) (orElse (ct_url taskInfo) (ct_result taskInfo))
           in if isFailed
              then (finalizeNode runStartTime (pio_now io) nodeId ''error''
                      [''statusMsg'' \<mapsto> JStr (orElse (ct_fail_reason taskInfo) ''Generation Failed'')] st,
                    Stop)
              else if isDone \<or> remoteUrl \<noteq> []
              then (if remoteUrl = []
                    then (finalizeNode runStartTime (pio_now io) nodeId ''error''
                            [''statusMsg'' \<mapsto> JStr ''No URL found in success result''] st, Stop)
                    else (let st1 = updateNodeData nodeId
                                      [''statusMsg'' \<mapsto> JStr ''Uploading Result...''] st
                          in case pio_fetch io remoteUrl of
                               Inl e \<Rightarrow> (st1, Unhandled e)
                             | Inr blob \<Rightarrow>
                                 (case uploadToImgBB (pio_imgbb io blob) (pio_imgbbKey io) of
                                    Inl e \<Rightarrow> (st1, Unhandled e)
                                  | Inr (finalUrl, mediumUrl) \<Rightarrow>
                                      (addResult io nodeId node ''image''
                                         [''url'' \<mapsto> JStr finalUrl, ''mediumUrl'' \<mapsto> JStr mediumUrl]
                                         (finalizeNode runStartTime (pio_now io) nodeId ''success''
                                            [''url'' \<mapsto> JStr finalUrl, ''mediumUrl'' \<mapsto> JStr mediumUrl,
                                             ''progress'' \<mapsto> JNum 100, ''statusMsg'' \<mapsto> JStr ''Done'']
                                            st1),
                                       Stop))))
              else (let progStr = orElse (ct_progress taskInfo) ''0%'';
                        progNum = (case parseInt (removeFirst (CHR ''%'') progStr) of
                                     None \<Rightarrow> 0 | Some n \<Rightarrow> n)
                    in (updateNodeData nodeId
                          [''progress'' \<mapsto> JNum (of_int progNum),
                           ''statusMsg'' \<mapsto> JStr (orElse progStr ''Processing...'')] st,
                        Again 3000))))"

text \<open>
  The JSON object \<^verbatim>\<open>pollComflyImageResult\<close> resolves to, as line 560 reads it:
  \<^verbatim>\<open>taskInfo = resObj.data || resObj\<close>. \<open>Enveloped task\<close>: the object has a \<^verbatim>\<open>data\<close> member, and
  that member is read as the task (the shape of the comment at line 559,
  \<^verbatim>\<open>{ code, data: { status, progress, data: { data: [{ url }] } } }\<close>). \<open>Bare task\<close>: the object has
  no \<^verbatim>\<open>data\<close> member and is itself the task; its \<^verbatim>\<open>data?.data?.[0]?.url\<close> is then undefined.
\<close>

datatype comfly_response = Enveloped comfly_task | Bare comfly_task

fun taskInfoOf :: "comfly_response \<Rightarrow> comfly_task" where
  "taskInfoOf (Enveloped task) = task"
| "taskInfoOf (Bare task) = task\<lparr>ct_data_url := []\<rparr>"

definition pollComflyImage_response ::
  "poll_io \<Rightarrow> rat \<Rightarrow> string \<Rightarrow> node \<Rightarrow> error + comfly_response \<Rightarrow> store \<Rightarrow> store \<times> poll_next" where
  "pollComflyImage_response io runStartTime nodeId node response st =
     pollComflyImage io runStartTime nodeId node
       (case response of Inl e \<Rightarrow> Inl e | Inr resObj \<Rightarrow> Inr (taskInfoOf resObj)) st"

text \<open>
  The result object of the Comfly video poll; \<open>cr_data\<close> is \<^verbatim>\<open>result.data\<close> when it is an
  object, with \<open>cd_outputs\<close> the first element of \<^verbatim>\<open>outputs\<close> when that is an array and its
  value otherwise.
\<close>

record comfly_video_data =
  cd_output :: string
  cd_url :: string
  cd_outputs :: string

record comfly_video_result =
  cr_status :: string
  cr_state :: string
  cr_fail_reason :: string
  cr_progress :: string
  cr_data :: "comfly_video_data option"

text \<open>The poll of the Comfly video path (lines 660 to 682).\<close>

definition pollComflyVideo ::
  "poll_io \<Rightarrow> rat \<Rightarrow> string \<Rightarrow> node \<Rightarrow> error + comfly_video_result \<Rightarrow> store
     \<Rightarrow> store \<times> poll_next" where
  "pollComflyVideo io runStartTime nodeId node response st =
     (case response of
        Inl e \<Rightarrow> (st, Unhandled e)
      | Inr result \<Rightarrow>
          (let rawStatus = toUpperCase (orElse (cr_status result) (orElse (cr_state result) []));
               isDone = isDoneStatus rawStatus
           in if rawStatus = ''FAILURE'' \<or> rawStatus = ''FAILED''
              then (finalizeNode runStartTime (pio_now io) nodeId ''error''
                      [''statusMsg'' \<mapsto> JStr (orElse (cr_fail_reason result) ''Generation Failed'')] st,
                    Stop)
              else if isDone \<or> (case cr_data result of None \<Rightarrow> False
                                 | Some d \<Rightarrow> cd_output d \<noteq> [] \<or> cd_url d \<noteq> [])
              then (let url = (case cr_data result of None \<Rightarrow> []
                               | Some d \<Rightarrow> orElse (cd_output d) (orElse (cd_url d) (cd_outputs d)))
                    in (addResult io nodeId node ''video'' [''url'' \<mapsto> JStr url]
                          (finalizeNode runStartTime (pio_now io) nodeId ''success''
                             [''url'' \<mapsto> JStr url, ''progress'' \<mapsto> JNum 100,
                              ''statusMsg'' \<mapsto> JStr ''Success''] st),
                        Stop))
              else (let progStr = orElse (cr_progress result) ''0%'';
                        progNum = (case parseInt (removeFirst (CHR ''%'') progStr) of
                                     None \<Rightarrow> 0 | Some n \<Rightarrow> n)
                    in (updateNodeData nodeId
                          [''progress'' \<mapsto> JNum (of_int progNum),
                           ''statusMsg'' \<mapsto> JStr (orElse progStr ''In Progress'')] st,
                        Again 4000))))"

text \<open>
  The asynchronous Comfly image branch of executeNode inside the \<^verbatim>\<open>try\<close> block (lines
  544 to 554 and 594): the status message, the awaited submission \<^verbatim>\<open>comflyDrawTask\<close>
  (its outcome is \<open>submitted\<close>), then the call \<^verbatim>\<open>poll()\<close>, which is not awaited. The
  handler ends there; the steps of \<^verbatim>\<open>poll\<close> run after it.
\<close>

definition comflyImageSubmit ::
  "error + string \<Rightarrow> string \<Rightarrow> node \<Rightarrow> incoming \<Rightarrow> store \<Rightarrow> store \<times> (error + unit)" where
  "comflyImageSubmit submitted nodeId node inputs st =
     (let st1 = updateNodeData nodeId [''statusMsg'' \<mapsto> JStr ''Queueing Task...''] st
      in case submitted of
           Inl e \<Rightarrow> (st1, Inl e)
         | Inr taskId \<Rightarrow> (st1, Inr ()))"

text \<open>
  An image generator on a Comfly model, alone in the graph; the outside with the
  settings as they are before the user enters an imgBB key
  (\<^verbatim>\<open>defaultSettings.imgbbKey = ''\<close>), and a task the provider reports as done.
\<close>

definition genNode :: node where
  "genNode = mkNode ''g'' ''aiImageGen'' [''model'' \<mapsto> JStr ''comfly:nano-banana'']"

definition genStore :: store where
  "genStore = \<lparr>nodes = [genNode], edges = []\<rparr>"

definition noKeyIo :: poll_io where
  "noKeyIo =
     \<lparr>pio_fetch = (\<lambda>u. Inr ''bytes''),
      pio_imgbb = (\<lambda>b. Inr \<lparr>ib_success = True, ib_error_message = [], ib_url = ''http://host/i.png'',
                            ib_medium_url = [], ib_display_url = []\<rparr>),
      pio_imgbbKey = [], pio_uuid = ''r1'', pio_now = 9000, pio_addEdge = (\<lambda>e es. es @ [e])\<rparr>"

definition doneTask :: comfly_task where
  "doneTask =
     \<lparr>ct_status = ''SUCCESS'', ct_state = [], ct_data_url = ''http://remote/out.png'', ct_url = [],
      ct_result = [], ct_fail_reason = [], ct_progress = ''100%''\<rparr>"

text \<open>A GRSAI result that reports a failure and the provider's reason for it.\<close>

definition failedResult :: grsai_result where
  "failedResult =
     \<lparr>gr_status = ''failed'', gr_progress = Some 40, gr_url = [], gr_results0_url = [],
      gr_other = [''failure_reason'' \<mapsto> JStr ''output_moderation'']\<rparr>"

definition failedTask :: comfly_task where
  "failedTask =
     \<lparr>ct_status = ''failed'', ct_state = [], ct_data_url = [], ct_url = [], ct_result = [],
      ct_fail_reason = ''quota exceeded'', ct_progress = ''40%''\<rparr>"

section \<open>Properties\<close>

subsection \<open>The store: \<^verbatim>\<open>updateNodeData\<close>\<close>

text \<open>
  Claim C10. For every node id and every patch, \<^verbatim>\<open>updateNodeData\<close> leaves the edge
  collection alone, keeps every node at its place in the node collection, returns every
  node with another id unchanged, and on a node with the given id keeps the id, the
  type, the position and every data field the patch does not name, while each field the
  patch names takes the patch's value.
\<close>

theorem updateNodeData_frame:
  "edges (updateNodeData nodeId patch st) = edges st
   \<and> length (nodes (updateNodeData nodeId patch st)) = length (nodes st)
   \<and> (\<forall>k < length (nodes st).
        (node_id (nodes st ! k) \<noteq> nodeId \<longrightarrow>
           nodes (updateNodeData nodeId patch st) ! k = nodes st ! k)
      \<and> (node_id (nodes st ! k) = nodeId \<longrightarrow>
           node_id (nodes (updateNodeData nodeId patch st) ! k) = nodeId
         \<and> node_type (nodes (updateNodeData nodeId patch st) ! k) = node_type (nodes st ! k)
         \<and> node_position (nodes (updateNodeData nodeId patch st) ! k)
             = node_position (nodes st ! k)
         \<and> (\<forall>f. f \<notin> dom patch \<longrightarrow>
               data (nodes (updateNodeData nodeId patch st) ! k) f = data (nodes st ! k) f)
         \<and> (\<forall>f \<in> dom patch.
               data (nodes (updateNodeData nodeId patch st) ! k) f = patch f)))"
  by (auto simp: updateNodeData_def map_add_def split: option.splits)

theorem updateNodeData_frame_witness:
  "nodes (updateNodeData ''b'' [''remark'' \<mapsto> JStr ''a tower''] remarkStore) ! 0
     = nodes remarkStore ! 0
   \<and> data (nodes (updateNodeData ''b'' [''remark'' \<mapsto> JStr ''a tower''] remarkStore) ! 1) ''url''
     = Some (JStr ''http://img/b'')
   \<and> data (nodes (updateNodeData ''b'' [''remark'' \<mapsto> JStr ''a tower''] remarkStore) ! 1) ''remark''
     = Some (JStr ''a tower'')
   \<and> edges (updateNodeData ''b'' [''remark'' \<mapsto> JStr ''a tower''] remarkStore)
     = edges remarkStore"
proof -
  note fr = updateNodeData_frame [of "''b''" "[''remark'' \<mapsto> JStr ''a tower'']" remarkStore]
  have len: "length (nodes remarkStore) = 3" by (simp add: remarkStore_def)
  have k0: "node_id (nodes remarkStore ! 0) \<noteq> ''b''" by (simp add: remarkStore_def mkNode_def)
  have k1: "node_id (nodes remarkStore ! 1) = ''b''" by (simp add: remarkStore_def mkNode_def)
  have u: "''url'' \<notin> dom [''remark'' \<mapsto> JStr ''a tower'']" by simp
  have r: "''remark'' \<in> dom [''remark'' \<mapsto> JStr ''a tower'']" by simp
  have d: "data (nodes remarkStore ! 1) ''url'' = Some (JStr ''http://img/b'')"
    by (simp add: remarkStore_def mkNode_def)
  from fr len k0 have "nodes (updateNodeData ''b'' [''remark'' \<mapsto> JStr ''a tower''] remarkStore) ! 0
     = nodes remarkStore ! 0" by simp
  moreover from fr len k1 u d
  have "data (nodes (updateNodeData ''b'' [''remark'' \<mapsto> JStr ''a tower''] remarkStore) ! 1) ''url''
     = Some (JStr ''http://img/b'')" by (metis One_nat_def lessI less_numeral_extra(1) numeral_3_eq_3
        Suc_lessD Suc_mono)
  moreover from fr len k1 r
  have "data (nodes (updateNodeData ''b'' [''remark'' \<mapsto> JStr ''a tower''] remarkStore) ! 1) ''remark''
     = Some (JStr ''a tower'')" by (simp add: numeral_3_eq_3)
  moreover from fr have "edges (updateNodeData ''b'' [''remark'' \<mapsto> JStr ''a tower''] remarkStore)
     = edges remarkStore" by simp
  ultimately show ?thesis by simp
qed

subsection \<open>The input resolver: image order\<close>

lemma foldl_pushText_images:
  "images (foldl (pushText st) acc es) = images acc"
  by (induction es arbitrary: acc) (auto simp: pushText_def split: option.splits)

lemma foldl_pushImage_images:
  "images (foldl (pushImage st) acc es) =
     images acc @ map (srcUrl st) (filter (\<lambda>e. srcUrl st e \<noteq> []) es)"
  by (induction es arbitrary: acc)
     (auto simp: pushImage_def srcUrl_def Let_def split: option.splits)

text \<open>The resolved images are the URLs behind the delivering edges, stably sorted by order.\<close>

lemma images_getIncomingData:
  "images (getIncomingData st t) = map (srcUrl st) (sort_key orderOf (imageSources st t))"
  by (simp add: getIncomingData_def Let_def foldl_pushImage_images foldl_pushText_images
      imageSources_def filter_sort)

lemma insort_key_map_edge:
  "insort_key f (g a) (map g xs) = map g (insort_key (\<lambda>e. f (g e)) a xs)"
  by (induction xs) auto

lemma sort_key_map_edge:
  "sort_key f (map g xs) = map g (sort_key (\<lambda>e. f (g e)) xs)"
  by (induction xs) (auto simp: insort_key_map_edge)

lemma foldl_map_edge: "foldl f a (map g xs) = foldl (\<lambda>a e. f a (g e)) a xs"
  by (induction xs arbitrary: a) auto

lemma orderOf_explicitOrder: "orderOf (explicitOrder e) = orderOf e"
  by (auto simp: orderOf_def explicitOrder_def split: option.splits)

lemma explicitOrder_fields:
  "target (explicitOrder e) = target e"
  "source (explicitOrder e) = source e"
  "targetHandle (explicitOrder e) = targetHandle e"
  by (simp_all add: explicitOrder_def)

lemma getIncomingData_explicitOrder:
  "getIncomingData (st\<lparr>edges := map explicitOrder (edges st)\<rparr>) t = getIncomingData st t"
proof -
  let ?st = "st\<lparr>edges := map explicitOrder (edges st)\<rparr>"
  have f: "findNode ?st = findNode st" by (simp add: findNode_def fun_eq_iff)
  have pt: "pushText ?st a (explicitOrder e) = pushText st a e" for a e
    by (simp add: pushText_def f explicitOrder_fields)
  have pi: "pushImage ?st a (explicitOrder e) = pushImage st a e" for a e
    by (simp add: pushImage_def f explicitOrder_fields)
  show ?thesis
    by (simp add: getIncomingData_def Let_def filter_map o_def isTextHandle_def isImageHandle_def
        sort_key_map_edge foldl_map_edge pt pi explicitOrder_fields orderOf_explicitOrder)
qed

text \<open>The comparator key of the code is the order field, read as 0 when it is missing.\<close>

lemma orderOf_field:
  "orderOf = (\<lambda>e. case edata e of None \<Rightarrow> 0
                   | Some d \<Rightarrow> (case order d of None \<Rightarrow> 0 | Some n \<Rightarrow> n))"
  by (auto simp: orderOf_def fun_eq_iff split: option.splits)

text \<open>
  Claim C4. For every store and target, the resolved image list is the list of source
  URLs of a sequence \<open>es\<close> of edges in which the values of the order field (0 for an edge
  without data or without order) are non-decreasing, and which, for every value \<open>k\<close>,
  holds the delivering image edges of order \<open>k\<close> exactly as they follow each other in the
  edge collection (the sort is stable, and \<open>es\<close> is a rearrangement of the delivering
  edges). A missing order behaves as 0: writing 0 into every edge that has no order
  changes nothing in what the resolver returns.
\<close>

theorem images_sorted_stable:
  "(\<exists>es. images (getIncomingData st t) = map (srcUrl st) es
         \<and> sorted (map (\<lambda>e. case edata e of None \<Rightarrow> 0
                              | Some d \<Rightarrow> (case order d of None \<Rightarrow> 0 | Some n \<Rightarrow> n)) es)
         \<and> (\<forall>k. filter (\<lambda>e. (case edata e of None \<Rightarrow> 0
                                 | Some d \<Rightarrow> (case order d of None \<Rightarrow> 0 | Some n \<Rightarrow> n)) = k) es
                 = filter (\<lambda>e. (case edata e of None \<Rightarrow> 0
                                 | Some d \<Rightarrow> (case order d of None \<Rightarrow> 0 | Some n \<Rightarrow> n)) = k)
                     (imageSources st t)))
   \<and> getIncomingData (st\<lparr>edges := map explicitOrder (edges st)\<rparr>) t = getIncomingData st t"
proof -
  let ?es = "sort_key orderOf (imageSources st t)"
  have "images (getIncomingData st t) = map (srcUrl st) ?es"
    by (rule images_getIncomingData)
  moreover have "sorted (map orderOf ?es)"
    by (rule sorted_sort_key)
  moreover have "\<forall>k. filter (\<lambda>e. orderOf e = k) ?es
                     = filter (\<lambda>e. orderOf e = k) (imageSources st t)"
    by (simp add: sort_key_stable)
  ultimately have "\<exists>es. images (getIncomingData st t) = map (srcUrl st) es
         \<and> sorted (map orderOf es)
         \<and> (\<forall>k. filter (\<lambda>e. orderOf e = k) es = filter (\<lambda>e. orderOf e = k) (imageSources st t))"
    by blast
  then show ?thesis
    unfolding orderOf_field using getIncomingData_explicitOrder by blast
qed

text \<open>
  Orders 3, missing, 2, 3, 1: the edge without order comes first, then orders 1 and 2,
  then the two edges of order 3 as they stand in the edge collection.
\<close>

theorem images_sorted_stable_witness:
  "images (getIncomingData rankStore ''t'')
     = [''http://img/b'', ''http://img/e'', ''http://img/c'', ''http://img/a'', ''http://img/d'']
   \<and> images (getIncomingData (rankStore\<lparr>edges := map explicitOrder (edges rankStore)\<rparr>) ''t'')
       = [''http://img/b'', ''http://img/e'', ''http://img/c'', ''http://img/a'', ''http://img/d'']"
proof -
  have "images (getIncomingData rankStore ''t'')
          = [''http://img/b'', ''http://img/e'', ''http://img/c'', ''http://img/a'', ''http://img/d'']"
    by (simp add: getIncomingData_def rankStore_def mkNode_def mkImageEdge_def isTextHandle_def
        isImageHandle_def orderOf_def pushImage_def pushText_def findNode_def strField_def Let_def)
  with images_sorted_stable [of rankStore "''t''"] show ?thesis by simp
qed

subsection \<open>The input resolver: remarks\<close>

text \<open>
  Claim C8 asks that the remark of the image at position \<open>i\<close> be at position \<open>i\<close> of the
  remark list. With two images of which only the second has a remark, the resolver
  returns a remark list of length one: the remark of the second image is at the first
  position, and the prompt attributes it to image 1.
\<close>

theorem imageRemarks_misaligned:
  "images (getIncomingData remarkStore ''t'') = [''http://img/a'', ''http://img/b'']
   \<and> imageRemarks (getIncomingData remarkStore ''t'') = [''the castle'']
   \<and> remarkLabels (getIncomingData remarkStore ''t'') = [(1, ''the castle'')]"
  by (simp add: getIncomingData_def remarkStore_def mkNode_def mkImageEdge_def isTextHandle_def
      isImageHandle_def orderOf_def pushImage_def pushText_def findNode_def strField_def Let_def
      remarkLabels_def)

subsection \<open>The prompt merger\<close>

lemma padShots_eq:
  "finalShots \<noteq> [] \<Longrightarrow>
     padShots finalShots targetLen =
       finalShots @ replicate (targetLen - length finalShots) (last finalShots)"
proof (induction finalShots targetLen rule: padShots.induct)
  case (1 finalShots targetLen)
  show ?case
  proof (cases "length finalShots < targetLen")
    case True
    then have e: "targetLen - length finalShots = Suc (targetLen - Suc (length finalShots))"
      by simp
    from True "1.IH" "1.prems"
    have "padShots (finalShots @ [last finalShots]) targetLen
            = (finalShots @ [last finalShots])
              @ replicate (targetLen - Suc (length finalShots)) (last finalShots)"
      by simp
    moreover have "padShots finalShots targetLen
                     = padShots (finalShots @ [last finalShots]) targetLen"
      using True by (subst padShots.simps) simp
    ultimately show ?thesis using e by simp
  next
    case False
    then show ?thesis by (subst padShots.simps) simp
  qed
qed

text \<open>
  Claim C1. For a non-empty shot list and a grid type 3x3 (target length 9) or 2x2
  (target length 4), the shot sequence is the first \<open>T\<close> elements of the list extended
  by copies of its last element; a shorter list comes out padded to length \<open>T\<close>, a
  longer one cut to its first \<open>T\<close> elements. This is what the handler computes from
  the shots it resolves and the grid type of its node.
\<close>

theorem activeShots_pad_or_truncate:
  assumes "shots \<noteq> []" and "g = ''3x3'' \<and> T = 9 \<or> g = ''2x2'' \<and> T = 4"
  shows "activeShots shots g = Inr (take T (shots @ replicate (T - length shots) (last shots)))
       \<and> (length shots < T \<longrightarrow>
            activeShots shots g = Inr (shots @ replicate (T - length shots) (last shots)))
       \<and> (length shots > T \<longrightarrow> activeShots shots g = Inr (take T shots))
       \<and> (resolveShots st node nodeId = shots \<and> strField (data node) ''gridType'' = g \<longrightarrow>
            promptMerge_shots st node nodeId
              = Inr (take T (shots @ replicate (T - length shots) (last shots))))"
proof -
  have tl: "(if orElse g ''3x3'' = ''3x3'' then 9 else 4) = T"
    using assms(2) by (auto simp: orElse_def)
  have "activeShots shots g = Inr (take T (shots @ replicate (T - length shots) (last shots)))"
    using assms(1) by (simp add: activeShots_def Let_def tl padShots_eq)
  then show ?thesis by (auto simp: promptMerge_shots_def)
qed

lemma example_merge_shots: "resolveShots mergeStore mergeNode ''m'' = [''A'', ''B'']"
  by (simp add: resolveShots_def mergeStore_def mergeNode_def sequenceEdges_def
      strField_def orElse_def trim_def isWhiteSpace_def Let_def)

theorem activeShots_pad_or_truncate_witness:
  "activeShots [''A'', ''B''] ''3x3''
     = Inr [''A'', ''B'', ''B'', ''B'', ''B'', ''B'', ''B'', ''B'', ''B'']
   \<and> activeShots [''A'', ''B'', ''C'', ''D'', ''E''] ''2x2'' = Inr [''A'', ''B'', ''C'', ''D'']
   \<and> promptMerge_shots mergeStore mergeNode ''m''
     = Inr [''A'', ''B'', ''B'', ''B'', ''B'', ''B'', ''B'', ''B'', ''B'']"
proof -
  have g: "strField (data mergeNode) ''gridType'' = ''3x3''"
    by (simp add: mergeNode_def strField_def)
  show ?thesis
    using activeShots_pad_or_truncate [of "[''A'', ''B'']" "''3x3''" 9 mergeStore mergeNode "''m''"]
        activeShots_pad_or_truncate [of "[''A'', ''B'', ''C'', ''D'', ''E'']" "''2x2''" 4]
        example_merge_shots g
    by (simp add: numeral_eq_Suc)
qed

subsection \<open>The image splitter\<close>

lemma upt_shift: "map (\<lambda>i. int i + 1) [0..<n] = [1..int n]"
proof (induction n)
  case 0
  then show ?case by simp
next
  case (Suc n)
  have "[1..int (Suc n)] = [1..int n] @ [int n + 1]"
    by (simp add: upto_rec2 add.commute)
  with Suc show ?case by simp
qed

lemma map_filter_inRange:
  "List.map_filter (\<lambda>n. n) (filter (inRange t) ns)
     = filter (\<lambda>n. 1 \<le> n \<and> n \<le> t) (List.map_filter (\<lambda>n. n) ns)"
  by (induction ns) (auto simp: inRange_def split: option.splits)

lemma map_filter_map_id: "List.map_filter (\<lambda>n. n) (map f xs) = List.map_filter f xs"
  by (induction xs) (auto split: option.splits)

lemma indices_all: "trim s = ''0'' \<Longrightarrow> indicesToExtract s t = [1..int t]"
  by (simp add: indicesToExtract_def upt_shift)

lemma indices_parsed:
  "trim s \<noteq> ''0'' \<Longrightarrow>
     indicesToExtract s t = filter (\<lambda>n. 1 \<le> n \<and> n \<le> int t) (parsedIntegers s)"
  by (simp add: indicesToExtract_def parsedIntegers_def map_filter_inRange map_filter_map_id)

lemma findNode_updateNodeData:
  "findNode (updateNodeData i p st) j
     = map_option (\<lambda>n. if node_id n = i then n\<lparr>data := data n ++ p\<rparr> else n) (findNode st j)"
proof -
  have "find (\<lambda>n. node_id n = j) (map (\<lambda>n. if node_id n = i then n\<lparr>data := data n ++ p\<rparr> else n) ns)
      = map_option (\<lambda>n. if node_id n = i then n\<lparr>data := data n ++ p\<rparr> else n)
          (find (\<lambda>n. node_id n = j) ns)" for ns :: "node list"
    by (induction ns) auto
  then show ?thesis by (simp add: findNode_def updateNodeData_def)
qed

lemma findNode_id: "findNode st i = Some n \<Longrightarrow> node_id n = i"
  by (auto simp: findNode_def find_Some_iff)

lemma findNode_updateNodeData_None:
  "findNode (updateNodeData i p st) j = None \<longleftrightarrow> findNode st j = None"
  by (simp add: findNode_updateNodeData)

lemma updateNodeData_shape:
  "length (nodes (updateNodeData i p st)) = length (nodes st)"
  "edges (updateNodeData i p st) = edges st"
  by (simp_all add: updateNodeData_def)

lemma finalizeNode_shape:
  "length (nodes (finalizeNode t0 t1 i s a st)) = length (nodes st)"
  "edges (finalizeNode t0 t1 i s a st) = edges st"
  by (simp_all add: finalizeNode_def Let_def updateNodeData_shape)

lemma finalizeNode_error_status:
  assumes "findNode st i \<noteq> None"
  shows "statusOf (finalizeNode t0 t1 i ''error'' [''statusMsg'' \<mapsto> m] st) i = ''error''"
    and "statusMsgOf (finalizeNode t0 t1 i ''error'' [''statusMsg'' \<mapsto> m] st) i = Some m"
  using assms
  by (auto simp: statusOf_def statusMsgOf_def finalizeNode_def Let_def findNode_updateNodeData
      strField_def dest: findNode_id)

lemma runNode_caught:
  assumes "findNode st nodeId = Some node"
    and "node_type node \<notin> set [''inputText'', ''inputImage'', ''outputResult'', ''imageProcessing'']"
    and "handler node (getIncomingData st nodeId) (updateNodeData nodeId (startPatch t0) st) = (st2, Inl e)"
  shows "runNode handler t0 t1 nodeId st
           = finalizeNode t0 t1 nodeId ''error'' [''statusMsg'' \<mapsto> message e] st2"
  using assms by (simp add: runNode_def Let_def)

lemma imageSplit_unfold:
  "imageSplit io finish nodeId node inputs st =
     (case images inputs of
        [] \<Rightarrow> (st, Inl MissingInputImage)
      | sourceUrl # others \<Rightarrow>
          (case io_decode io sourceUrl of
             Inl e \<Rightarrow> (updateNodeData nodeId [''statusMsg'' \<mapsto> JStr ''Processing Split...''] st, Inl e)
           | Inr (width, height) \<Rightarrow>
               if indicesToExtract (gridSelect node) (gridCols node * gridCols node) = []
               then (updateNodeData nodeId [''statusMsg'' \<mapsto> JStr ''Processing Split...''] st, Inl NoValidIndex)
               else if \<not> io_context io
               then (updateNodeData nodeId [''statusMsg'' \<mapsto> JStr ''Processing Split...''] st, Inl CanvasContextFailed)
               else (case splitLoop io
                            \<lparr>cx_nodeId = nodeId, cx_position = node_position node,
                             cx_sourceUrl = sourceUrl, cx_cols = int (gridCols node),
                             cx_cellW = of_nat width / of_nat (gridCols node),
                             cx_cellH = of_nat height / of_nat (gridCols node),
                             cx_trim = gridTrim node,
                             cx_count = length (indicesToExtract (gridSelect node) (gridCols node * gridCols node))\<rparr>
                            0 (indicesToExtract (gridSelect node) (gridCols node * gridCols node)) [] []
                            (updateNodeData nodeId [''statusMsg'' \<mapsto> JStr ''Processing Split...''] st) of
                       (st2, Inl e) \<Rightarrow> (st2, Inl e)
                     | (st2, Inr (newOutputNodes, newOutputEdges)) \<Rightarrow>
                         (finish nodeId ''success'' [''statusMsg'' \<mapsto> JStr ''Split Done'']
                            (setEdges (edges st2 @ newOutputEdges)
                               (setNodes (nodes st2 @ newOutputNodes) st2)),
                          Inr ()))))"
  by (simp add: imageSplit_def gridSelect_def gridTrim_def gridCols_def Let_def
      split: list.splits sum.splits prod.splits)

lemma imageSplit_empty_selection:
  assumes "indicesToExtract (gridSelect node) (gridCols node * gridCols node) = []"
  shows "\<exists>e st2. imageSplit io finish nodeId node inputs st = (st2, Inl e)
           \<and> (st2 = st \<or> st2 = updateNodeData nodeId [''statusMsg'' \<mapsto> JStr ''Processing Split...''] st)
           \<and> (\<forall>u us w h. images inputs = u # us \<and> io_decode io u = Inr (w, h) \<longrightarrow> e = NoValidIndex)"
  using assms by (auto simp: imageSplit_unfold split: list.splits sum.splits)

lemma splitLoop_trim:
  assumes "indices \<noteq> []"
    and "cx_cellW cx - 2 * cx_trim cx \<le> 0 \<or> cx_cellH cx - 2 * cx_trim cx \<le> 0"
  shows "splitLoop io cx i indices ns es st = (st, Inl TrimTooLarge)"
proof -
  from assms(1) obtain index rest where "indices = index # rest" by (cases indices) auto
  with assms(2) show ?thesis
    by (auto simp: cellRect_def Let_def mult.commute)
qed

lemma imageSplit_trim:
  assumes "images inputs = u # us" and "io_decode io u = Inr (w, h)"
    and "of_nat w / of_nat (gridCols node) - 2 * gridTrim node \<le> 0
         \<or> of_nat h / of_nat (gridCols node) - 2 * gridTrim node \<le> 0"
  shows "\<exists>e. imageSplit io finish nodeId node inputs st
            = (updateNodeData nodeId [''statusMsg'' \<mapsto> JStr ''Processing Split...''] st, Inl e)
          \<and> (io_context io \<and> indicesToExtract (gridSelect node) (gridCols node * gridCols node) \<noteq> []
               \<longrightarrow> e = TrimTooLarge)"
  using assms by (auto simp: imageSplit_unfold splitLoop_trim)

text \<open>
  Claim C2. When the selection string trims to \<^verbatim>\<open>"0"\<close> the selected indices are all of
  1 to the number of cells; otherwise they are the integers parsed from the pieces of
  the string that lie between 1 and the number of cells, in the order of the string.
  Whenever the selection of a splitter node is empty the handler ends in an error (the
  error of the empty selection once the image has been decoded), and executeNode leaves
  the node with status \<^verbatim>\<open>error\<close>.
\<close>

theorem split_selection:
  "(trim selectStr = ''0'' \<longrightarrow> indicesToExtract selectStr totalCells = [1..int totalCells])
   \<and> (trim selectStr \<noteq> ''0'' \<longrightarrow>
        indicesToExtract selectStr totalCells
          = filter (\<lambda>n. 1 \<le> n \<and> n \<le> int totalCells) (parsedIntegers selectStr))
   \<and> (indicesToExtract (gridSelect node) (gridCols node * gridCols node) = [] \<longrightarrow>
        (\<exists>e. snd (imageSplit io finish nodeId node inputs st) = Inl e)
      \<and> (\<forall>u us w h. images inputs = u # us \<and> io_decode io u = Inr (w, h) \<longrightarrow>
            snd (imageSplit io finish nodeId node inputs st) = Inl NoValidIndex)
      \<and> (findNode st nodeId = Some node \<and> node_type node = ''imageSplit'' \<longrightarrow>
            statusOf (executeNode_imageSplit io t0 t1 nodeId st) nodeId = ''error''))"
proof -
  have run: "statusOf (executeNode_imageSplit io t0 t1 nodeId st) nodeId = ''error''"
    if sel: "indicesToExtract (gridSelect node) (gridCols node * gridCols node) = []"
      and n: "findNode st nodeId = Some node" and ty: "node_type node = ''imageSplit''"
  proof -
    let ?st1 = "updateNodeData nodeId (startPatch t0) st"
    from imageSplit_empty_selection [OF sel]
    obtain e st2 where h: "imageSplit io (finalizeNode t0 t1) nodeId node (getIncomingData st nodeId) ?st1
                             = (st2, Inl e)"
      and s: "st2 = ?st1 \<or> st2 = updateNodeData nodeId [''statusMsg'' \<mapsto> JStr ''Processing Split...''] ?st1"
      by blast
    from n s have "findNode st2 nodeId \<noteq> None"
      by (auto simp: findNode_updateNodeData)
    moreover from n ty h
    have "executeNode_imageSplit io t0 t1 nodeId st
            = finalizeNode t0 t1 nodeId ''error'' [''statusMsg'' \<mapsto> message e] st2"
      unfolding executeNode_imageSplit_def by (intro runNode_caught) auto
    ultimately show ?thesis by (simp add: finalizeNode_error_status)
  qed
  have err: "\<exists>e. snd (imageSplit io finish nodeId node inputs st) = Inl e"
    if "indicesToExtract (gridSelect node) (gridCols node * gridCols node) = []"
    using imageSplit_empty_selection [OF that, of io finish nodeId inputs st] by auto
  have nv: "snd (imageSplit io finish nodeId node inputs st) = Inl NoValidIndex"
    if "indicesToExtract (gridSelect node) (gridCols node * gridCols node) = []"
      and "images inputs = u # us" and "io_decode io u = Inr (w, h)" for u us w h
    using imageSplit_empty_selection [OF that(1), of io finish nodeId inputs st] that(2,3) by auto
  show ?thesis
    using indices_all indices_parsed run err nv by blast
qed

lemma example_trim: "trim ''0'' = ''0''" "trim ''2,5,11'' = ''2,5,11''"
  by (simp_all add: trim_def isWhiteSpace_def)

lemma example_parsed: "parsedIntegers ''2,5,11'' = [2, 5, 11]"
  by (simp add: parsedIntegers_def isSeparator_def isWhiteSpace_def parseInt_def isDigit_def
      digitsValue_def Let_def)

lemma example_upto: "[1..9] = [1, 2, 3, 4, 5, 6, 7, 8, 9 :: int]"
  by code_simp

lemma example_out_of_range: "indicesToExtract ''11'' 4 = []"
  by (simp add: indicesToExtract_def trim_def parsedIntegers_def isSeparator_def isWhiteSpace_def parseInt_def isDigit_def
      digitsValue_def Let_def inRange_def)

lemma example_select_node: "findNode (splitStore [''gridSelect'' \<mapsto> JStr ''11'']) ''s''
   = Some (mkNode ''s'' ''imageSplit'' [''gridSelect'' \<mapsto> JStr ''11''])"
  by (simp add: findNode_def splitStore_def mkNode_def)

lemma example_select_config: "gridSelect (mkNode ''s'' ''imageSplit'' [''gridSelect'' \<mapsto> JStr ''11'']) = ''11''"
  "gridCols (mkNode ''s'' ''imageSplit'' [''gridSelect'' \<mapsto> JStr ''11'']) = 2"
  by (simp_all add: gridSelect_def gridCols_def mkNode_def strField_def orElse_def)


theorem split_selection_witness:
  "indicesToExtract ''0'' 9 = [1, 2, 3, 4, 5, 6, 7, 8, 9]
   \<and> indicesToExtract ''2,5,11'' 9 = [2, 5]
   \<and> statusOf (executeNode_imageSplit splitIo 0 1500 ''s'' (splitStore [''gridSelect'' \<mapsto> JStr ''11''])) ''s''
       = ''error''"
proof -
  note th = split_selection [of "''0''" 9 "mkNode ''s'' ''imageSplit'' [''gridSelect'' \<mapsto> JStr ''11'']"
      splitIo "finalizeNode 0 1500" "''s''" "getIncomingData (splitStore [''gridSelect'' \<mapsto> JStr ''11'']) ''s''"
      "splitStore [''gridSelect'' \<mapsto> JStr ''11'']" 0 1500]
  note th2 = split_selection [of "''2,5,11''" 9 "mkNode ''s'' ''imageSplit'' [''gridSelect'' \<mapsto> JStr ''11'']"
      splitIo "finalizeNode 0 1500" "''s''" "getIncomingData (splitStore [''gridSelect'' \<mapsto> JStr ''11'']) ''s''"
      "splitStore [''gridSelect'' \<mapsto> JStr ''11'']" 0 1500]
  have a: "indicesToExtract ''0'' 9 = [1, 2, 3, 4, 5, 6, 7, 8, 9]"
    using th example_trim(1) example_upto by simp
  have b: "indicesToExtract ''2,5,11'' 9 = [2, 5]"
    using th2 example_trim(2) example_parsed by simp
  have c: "statusOf (executeNode_imageSplit splitIo 0 1500 ''s'' (splitStore [''gridSelect'' \<mapsto> JStr ''11''])) ''s''
       = ''error''"
    using th example_out_of_range example_select_node example_select_config by (simp add: mkNode_def)
  from a b c show ?thesis by simp
qed

lemma cellRect_explicit:
  "cellRect cols cellW cellH trm index =
     \<lparr>rect_sx = of_int ((index - 1) mod cols) * cellW + trm,
      rect_sy = of_int ((index - 1) div cols) * cellH + trm,
      rect_sw = cellW - 2 * trm, rect_sh = cellH - 2 * trm\<rparr>"
  by (simp add: cellRect_def Let_def mult.commute)

lemma splitLoop_cells:
  assumes "splitLoop io cx i indices ns es st = (st', Inr (ns', es'))"
  shows "length ns' = length ns + length indices \<and> take (length ns) ns' = ns
       \<and> length es' = length es + length indices \<and> take (length es) es' = es
       \<and> length (nodes st') = length (nodes st) \<and> edges st' = edges st
       \<and> (indices \<noteq> [] \<longrightarrow> 0 < cx_cellW cx - 2 * cx_trim cx \<and> 0 < cx_cellH cx - 2 * cx_trim cx)
       \<and> (\<forall>k<length indices. \<exists>url mediumUrl.
            uploadToImgBB
              (io_imgbb io
                 \<lparr>crop_src = cx_sourceUrl cx,
                  crop_rect = cellRect (cx_cols cx) (cx_cellW cx) (cx_cellH cx) (cx_trim cx) (indices ! k)\<rparr>
                 (''split_'' @ showNat (nat (indices ! k))))
              (io_imgbbKey io) = Inr (url, mediumUrl)
          \<and> ns' ! (length ns + k)
              = cellNode cx (i + k) (indices ! k) (io_uuid io (i + k)) url mediumUrl
          \<and> es' ! (length es + k) = cellEdge cx (io_uuid io (i + k)))"
  using assms
proof (induction indices arbitrary: i ns es st)
  case Nil
  then show ?case by simp
next
  case (Cons index rest)
  let ?rc = "cellRect (cx_cols cx) (cx_cellW cx) (cx_cellH cx) (cx_trim cx) index"
  let ?up = "uploadToImgBB (io_imgbb io \<lparr>crop_src = cx_sourceUrl cx, crop_rect = ?rc\<rparr>
                 (''split_'' @ showNat (nat index))) (io_imgbbKey io)"
  from Cons.prems have pos: "\<not> (rect_sw ?rc \<le> 0 \<or> rect_sh ?rc \<le> 0)"
    by (auto simp: Let_def split: if_splits)
  with Cons.prems obtain url mediumUrl where up: "?up = Inr (url, mediumUrl)"
    by (auto simp: Let_def split: sum.splits)
  let ?node = "cellNode cx i index (io_uuid io i) url mediumUrl"
  let ?edge = "cellEdge cx (io_uuid io i)"
  let ?st = "updateNodeData (cx_nodeId cx)
               [''progress'' \<mapsto> JNum (of_int \<lfloor>(of_nat (i + 1) / of_nat (cx_count cx)) * (100 :: rat)\<rfloor>)] st"
  from Cons.prems pos up
  have rec: "splitLoop io cx (i + 1) rest (ns @ [?node]) (es @ [?edge]) ?st = (st', Inr (ns', es'))"
    by (simp add: Let_def)
  note ih = Cons.IH [OF rec]
  from ih have len: "length ns' = length ns + length (index # rest)"
    and tk: "take (length ns + 1) ns' = ns @ [?node]"
    and elen: "length es' = length es + length (index # rest)"
    and etk: "take (length es + 1) es' = es @ [?edge]"
    and st: "length (nodes st') = length (nodes st)" "edges st' = edges st"
    by (simp_all add: updateNodeData_def)
  from tk have tk0: "take (length ns) ns' = ns"
    by (metis append_eq_conv_conj length_append_singleton take_take min.absorb1 le_add1 append_take_drop_id take_all_iff
        butlast_snoc butlast_take diff_add_inverse2 One_nat_def nat_le_linear)
  from etk have etk0: "take (length es) es' = es"
    by (metis append_eq_conv_conj length_append_singleton take_take min.absorb1 le_add1 append_take_drop_id take_all_iff
        butlast_snoc butlast_take diff_add_inverse2 One_nat_def nat_le_linear)
  from tk len have n0: "ns' ! length ns = ?node"
    by (metis less_add_one nth_append_length nth_take)
  from etk elen have e0: "es' ! length es = ?edge"
    by (metis less_add_one nth_append_length nth_take)
  have dims: "0 < cx_cellW cx - 2 * cx_trim cx \<and> 0 < cx_cellH cx - 2 * cx_trim cx"
    using pos by (simp add: cellRect_explicit not_le)
  have cells: "\<exists>url mediumUrl.
            uploadToImgBB
              (io_imgbb io
                 \<lparr>crop_src = cx_sourceUrl cx,
                  crop_rect = cellRect (cx_cols cx) (cx_cellW cx) (cx_cellH cx) (cx_trim cx) ((index # rest) ! k)\<rparr>
                 (''split_'' @ showNat (nat ((index # rest) ! k))))
              (io_imgbbKey io) = Inr (url, mediumUrl)
          \<and> ns' ! (length ns + k)
              = cellNode cx (i + k) ((index # rest) ! k) (io_uuid io (i + k)) url mediumUrl
          \<and> es' ! (length es + k) = cellEdge cx (io_uuid io (i + k))"
    if k: "k < length (index # rest)" for k
  proof (cases k)
    case 0
    with up n0 e0 show ?thesis by simp
  next
    case (Suc j)
    with k have "j < length rest" by simp
    with ih obtain u m where
      "uploadToImgBB
              (io_imgbb io
                 \<lparr>crop_src = cx_sourceUrl cx,
                  crop_rect = cellRect (cx_cols cx) (cx_cellW cx) (cx_cellH cx) (cx_trim cx) (rest ! j)\<rparr>
                 (''split_'' @ showNat (nat (rest ! j))))
              (io_imgbbKey io) = Inr (u, m)"
      "ns' ! (length (ns @ [?node]) + j) = cellNode cx (i + 1 + j) (rest ! j) (io_uuid io (i + 1 + j)) u m"
      "es' ! (length (es @ [?edge]) + j) = cellEdge cx (io_uuid io (i + 1 + j))"
      by blast
    with Suc show ?thesis by simp
  qed
  from len tk0 elen etk0 st dims cells show ?case by blast
qed

lemma splitLoop_succeeds:
  assumes "0 < cx_cellW cx - 2 * cx_trim cx" "0 < cx_cellH cx - 2 * cx_trim cx"
    and "\<forall>index \<in> set indices. \<exists>r.
            uploadToImgBB
              (io_imgbb io
                 \<lparr>crop_src = cx_sourceUrl cx,
                  crop_rect = cellRect (cx_cols cx) (cx_cellW cx) (cx_cellH cx) (cx_trim cx) index\<rparr>
                 (''split_'' @ showNat (nat index)))
              (io_imgbbKey io) = Inr r"
  shows "\<exists>st' ns' es'. splitLoop io cx i indices ns es st = (st', Inr (ns', es'))"
  using assms(3)
proof (induction indices arbitrary: i ns es st)
  case Nil
  then show ?case by simp
next
  case (Cons index rest)
  from Cons.prems obtain url mediumUrl where
    "uploadToImgBB
              (io_imgbb io
                 \<lparr>crop_src = cx_sourceUrl cx,
                  crop_rect = cellRect (cx_cols cx) (cx_cellW cx) (cx_cellH cx) (cx_trim cx) index\<rparr>
                 (''split_'' @ showNat (nat index)))
              (io_imgbbKey io) = Inr (url, mediumUrl)"
    by fastforce
  moreover from Cons.prems have "\<forall>index \<in> set rest. \<exists>r.
            uploadToImgBB
              (io_imgbb io
                 \<lparr>crop_src = cx_sourceUrl cx,
                  crop_rect = cellRect (cx_cols cx) (cx_cellW cx) (cx_cellH cx) (cx_trim cx) index\<rparr>
                 (''split_'' @ showNat (nat index)))
              (io_imgbbKey io) = Inr r"
    by simp
  ultimately show ?case
    using assms(1,2) Cons.IH by (simp add: Let_def cellRect_explicit not_le)
qed

lemma cellNode_url_kept:
  "data ((\<lambda>n. if node_id n = i then n\<lparr>data := data n ++
        ([''status'' \<mapsto> s, ''duration'' \<mapsto> d] ++ [''statusMsg'' \<mapsto> m])\<rparr> else n)
      (cellNode cx k index resultId url mediumUrl)) ''url'' = Some (JStr url)"
  by (simp add: cellNode_def map_add_def)

lemma imageSplit_cells:
  assumes im: "images inputs = u # us" and de: "io_decode io u = Inr (w, h)"
    and ok: "snd (imageSplit io (finalizeNode t0 t1) nodeId node inputs st) = Inr ()"
  shows "length (nodes (fst (imageSplit io (finalizeNode t0 t1) nodeId node inputs st)))
           = length (nodes st)
             + length (indicesToExtract (gridSelect node) (gridCols node * gridCols node))
       \<and> length (edges (fst (imageSplit io (finalizeNode t0 t1) nodeId node inputs st)))
           = length (edges st)
             + length (indicesToExtract (gridSelect node) (gridCols node * gridCols node))
       \<and> indicesToExtract (gridSelect node) (gridCols node * gridCols node) \<noteq> []
       \<and> 0 < of_nat w / of_nat (gridCols node) - 2 * gridTrim node
       \<and> 0 < of_nat h / of_nat (gridCols node) - 2 * gridTrim node
       \<and> (\<forall>k < length (indicesToExtract (gridSelect node) (gridCols node * gridCols node)).
            \<exists>url mediumUrl.
              uploadToImgBB
                (io_imgbb io
                   \<lparr>crop_src = u,
                    crop_rect =
                      \<lparr>rect_sx = of_int ((indicesToExtract (gridSelect node) (gridCols node * gridCols node) ! k - 1)
                                          mod int (gridCols node))
                                 * (of_nat w / of_nat (gridCols node)) + gridTrim node,
                       rect_sy = of_int ((indicesToExtract (gridSelect node) (gridCols node * gridCols node) ! k - 1)
                                          div int (gridCols node))
                                 * (of_nat h / of_nat (gridCols node)) + gridTrim node,
                       rect_sw = of_nat w / of_nat (gridCols node) - 2 * gridTrim node,
                       rect_sh = of_nat h / of_nat (gridCols node) - 2 * gridTrim node\<rparr>\<rparr>
                   (''split_'' @ showNat (nat (indicesToExtract (gridSelect node) (gridCols node * gridCols node) ! k))))
                (io_imgbbKey io) = Inr (url, mediumUrl)
            \<and> data (nodes (fst (imageSplit io (finalizeNode t0 t1) nodeId node inputs st))
                      ! (length (nodes st) + k)) ''url'' = Some (JStr url))"
proof -
  let ?ix = "indicesToExtract (gridSelect node) (gridCols node * gridCols node)"
  let ?st1 = "updateNodeData nodeId [''statusMsg'' \<mapsto> JStr ''Processing Split...''] st"
  let ?cx = "\<lparr>cx_nodeId = nodeId, cx_position = node_position node,
                             cx_sourceUrl = u, cx_cols = int (gridCols node),
                             cx_cellW = of_nat w / of_nat (gridCols node),
                             cx_cellH = of_nat h / of_nat (gridCols node),
                             cx_trim = gridTrim node,
                             cx_count = length ?ix\<rparr>"
  from ok im de have ne: "?ix \<noteq> []" and ctx: "io_context io"
    by (auto simp: imageSplit_unfold split: if_splits)
  obtain st2 r where sl: "splitLoop io ?cx 0 ?ix [] [] ?st1 = (st2, r)"
    by (cases "splitLoop io ?cx 0 ?ix [] [] ?st1") auto
  with ok im de ne ctx obtain ns' es' where r: "r = Inr (ns', es')"
    by (cases r) (auto simp: imageSplit_unfold)
  from im de ne ctx sl r
  have res: "fst (imageSplit io (finalizeNode t0 t1) nodeId node inputs st)
          = finalizeNode t0 t1 nodeId ''success'' [''statusMsg'' \<mapsto> JStr ''Split Done'']
              (setEdges (edges st2 @ es') (setNodes (nodes st2 @ ns') st2))"
    by (simp add: imageSplit_unfold)
  note c = splitLoop_cells [OF sl [unfolded r]]
  from c have l1: "length ns' = length ?ix" and l2: "length es' = length ?ix"
    and l3: "length (nodes st2) = length (nodes st)" and l4: "edges st2 = edges st"
    by (simp_all add: updateNodeData_shape)
  from c ne have dims: "0 < of_nat w / of_nat (gridCols node) - 2 * gridTrim node"
     "0 < of_nat h / of_nat (gridCols node) - 2 * gridTrim node"
    by simp_all
  have nodes_res: "nodes (fst (imageSplit io (finalizeNode t0 t1) nodeId node inputs st))
     = map (\<lambda>n. if node_id n = nodeId then n\<lparr>data := data n ++
        ([''status'' \<mapsto> JStr ''success'', ''duration'' \<mapsto> JNum (toFixed1 ((t1 - t0) / 1000))]
           ++ [''statusMsg'' \<mapsto> JStr ''Split Done''])\<rparr> else n) (nodes st2 @ ns')"
    by (simp add: res finalizeNode_def Let_def updateNodeData_def setNodes_def setEdges_def)
  have edges_res: "edges (fst (imageSplit io (finalizeNode t0 t1) nodeId node inputs st)) = edges st2 @ es'"
    by (simp add: res finalizeNode_def Let_def updateNodeData_def setNodes_def setEdges_def)
  have cell: "\<exists>url mediumUrl.
              uploadToImgBB
                (io_imgbb io
                   \<lparr>crop_src = u,
                    crop_rect = cellRect (int (gridCols node)) (of_nat w / of_nat (gridCols node))
                       (of_nat h / of_nat (gridCols node)) (gridTrim node) (?ix ! k)\<rparr>
                   (''split_'' @ showNat (nat (?ix ! k))))
                (io_imgbbKey io) = Inr (url, mediumUrl)
            \<and> data (nodes (fst (imageSplit io (finalizeNode t0 t1) nodeId node inputs st))
                      ! (length (nodes st) + k)) ''url'' = Some (JStr url)"
    if k: "k < length ?ix" for k
  proof -
    from c k obtain url mediumUrl where
      up: "uploadToImgBB
                (io_imgbb io
                   \<lparr>crop_src = u,
                    crop_rect = cellRect (int (gridCols node)) (of_nat w / of_nat (gridCols node))
                       (of_nat h / of_nat (gridCols node)) (gridTrim node) (?ix ! k)\<rparr>
                   (''split_'' @ showNat (nat (?ix ! k))))
                (io_imgbbKey io) = Inr (url, mediumUrl)"
      and nd: "ns' ! k = cellNode ?cx k (?ix ! k) (io_uuid io k) url mediumUrl"
      by fastforce
    from k l1 l3 have at: "(nodes st2 @ ns') ! (length (nodes st) + k) = ns' ! k"
      by (simp add: nth_append)
    from k l1 l3 have idx: "length (nodes st) + k < length (nodes st2 @ ns')"
      by simp
    have "nodes (fst (imageSplit io (finalizeNode t0 t1) nodeId node inputs st))
            ! (length (nodes st) + k)
        = (\<lambda>n. if node_id n = nodeId then n\<lparr>data := data n ++
        ([''status'' \<mapsto> JStr ''success'', ''duration'' \<mapsto> JNum (toFixed1 ((t1 - t0) / 1000))]
           ++ [''statusMsg'' \<mapsto> JStr ''Split Done''])\<rparr> else n)
          ((nodes st2 @ ns') ! (length (nodes st) + k))"
      unfolding nodes_res using idx by (rule nth_map)
    then have "data (nodes (fst (imageSplit io (finalizeNode t0 t1) nodeId node inputs st))
                      ! (length (nodes st) + k)) ''url'' = Some (JStr url)"
      unfolding at nd by (simp only: cellNode_url_kept)
    with up show ?thesis by blast
  qed
  from l1 l2 l3 l4 ne dims cell show ?thesis
    by (simp add: nodes_res edges_res cellRect_explicit)
qed

lemma imageSplit_succeeds:
  assumes im: "images inputs = u # us" and de: "io_decode io u = Inr (w, h)"
    and ctx: "io_context io"
    and ne: "indicesToExtract (gridSelect node) (gridCols node * gridCols node) \<noteq> []"
    and dims: "0 < of_nat w / of_nat (gridCols node) - 2 * gridTrim node"
              "0 < of_nat h / of_nat (gridCols node) - 2 * gridTrim node"
    and ups: "\<forall>index \<in> set (indicesToExtract (gridSelect node) (gridCols node * gridCols node)). \<exists>r.
              uploadToImgBB
                (io_imgbb io
                   \<lparr>crop_src = u,
                    crop_rect =
                      \<lparr>rect_sx = of_int ((index - 1) mod int (gridCols node))
                                 * (of_nat w / of_nat (gridCols node)) + gridTrim node,
                       rect_sy = of_int ((index - 1) div int (gridCols node))
                                 * (of_nat h / of_nat (gridCols node)) + gridTrim node,
                       rect_sw = of_nat w / of_nat (gridCols node) - 2 * gridTrim node,
                       rect_sh = of_nat h / of_nat (gridCols node) - 2 * gridTrim node\<rparr>\<rparr>
                   (''split_'' @ showNat (nat index)))
                (io_imgbbKey io) = Inr r"
  shows "snd (imageSplit io finish nodeId node inputs st) = Inr ()"
proof -
  let ?ix = "indicesToExtract (gridSelect node) (gridCols node * gridCols node)"
  let ?st1 = "updateNodeData nodeId [''statusMsg'' \<mapsto> JStr ''Processing Split...''] st"
  let ?cx = "\<lparr>cx_nodeId = nodeId, cx_position = node_position node,
                             cx_sourceUrl = u, cx_cols = int (gridCols node),
                             cx_cellW = of_nat w / of_nat (gridCols node),
                             cx_cellH = of_nat h / of_nat (gridCols node),
                             cx_trim = gridTrim node,
                             cx_count = length ?ix\<rparr>"
  have "\<exists>st' ns' es'. splitLoop io ?cx 0 ?ix [] [] ?st1 = (st', Inr (ns', es'))"
    using dims ups by (intro splitLoop_succeeds) (simp_all add: cellRect_explicit)
  then obtain st' ns' es' where "splitLoop io ?cx 0 ?ix [] [] ?st1 = (st', Inr (ns', es'))"
    by blast
  with im de ctx ne show ?thesis by (simp add: imageSplit_unfold)
qed

text \<open>
  Claim C3. The rectangle extracted for a cell is \<open>cellW - 2 * trim\<close> wide and
  \<open>cellH - 2 * trim\<close> high. When the image has been decoded and one of the two is not
  positive, the handler ends in an error having written only the status message; with a
  canvas context and a non-empty selection that error is the trim error. executeNode
  then leaves the node with status \<^verbatim>\<open>error\<close> and adds no node and no edge.

  When the handler ends without error, both dimensions are positive and it has added one
  node and one edge per selected index; the node added for the index at position \<open>k\<close>
  carries the URL that the upload returned for the blob of the first image cut to the
  rectangle at the cell's origin plus the trim, \<open>cellW - 2 * trim\<close> wide and
  \<open>cellH - 2 * trim\<close> high. With a canvas context, a non-empty selection, positive
  dimensions and uploads that succeed for these blobs, the handler does end without
  error.
\<close>

theorem split_trim_too_large:
  "rect_sw (cellRect cols cellW cellH trm index) = cellW - 2 * trm
   \<and> rect_sh (cellRect cols cellW cellH trm index) = cellH - 2 * trm
   \<and> (images inputs = u # us \<and> io_decode io u = Inr (w, h)
        \<and> (of_nat w / of_nat (gridCols node) - 2 * gridTrim node \<le> 0
           \<or> of_nat h / of_nat (gridCols node) - 2 * gridTrim node \<le> 0) \<longrightarrow>
        (\<exists>e. imageSplit io finish nodeId node inputs st
                = (updateNodeData nodeId [''statusMsg'' \<mapsto> JStr ''Processing Split...''] st, Inl e)
            \<and> (io_context io
                 \<and> indicesToExtract (gridSelect node) (gridCols node * gridCols node) \<noteq> []
               \<longrightarrow> e = TrimTooLarge)))
   \<and> (findNode st nodeId = Some node \<and> node_type node = ''imageSplit''
        \<and> images (getIncomingData st nodeId) = u # us \<and> io_decode io u = Inr (w, h)
        \<and> (of_nat w / of_nat (gridCols node) - 2 * gridTrim node \<le> 0
           \<or> of_nat h / of_nat (gridCols node) - 2 * gridTrim node \<le> 0) \<longrightarrow>
        statusOf (executeNode_imageSplit io runStartTime now nodeId st) nodeId = ''error''
      \<and> length (nodes (executeNode_imageSplit io runStartTime now nodeId st)) = length (nodes st)
      \<and> edges (executeNode_imageSplit io runStartTime now nodeId st) = edges st
      \<and> (io_context io
           \<and> indicesToExtract (gridSelect node) (gridCols node * gridCols node) \<noteq> [] \<longrightarrow>
          statusMsgOf (executeNode_imageSplit io runStartTime now nodeId st) nodeId
            = Some (message TrimTooLarge)))
   \<and> (images inputs = u # us \<and> io_decode io u = Inr (w, h)
        \<and> snd (imageSplit io (finalizeNode runStartTime now) nodeId node inputs st) = Inr () \<longrightarrow>
        length (nodes (fst (imageSplit io (finalizeNode runStartTime now) nodeId node inputs st)))
           = length (nodes st)
             + length (indicesToExtract (gridSelect node) (gridCols node * gridCols node))
       \<and> length (edges (fst (imageSplit io (finalizeNode runStartTime now) nodeId node inputs st)))
           = length (edges st)
             + length (indicesToExtract (gridSelect node) (gridCols node * gridCols node))
       \<and> indicesToExtract (gridSelect node) (gridCols node * gridCols node) \<noteq> []
       \<and> 0 < of_nat w / of_nat (gridCols node) - 2 * gridTrim node
       \<and> 0 < of_nat h / of_nat (gridCols node) - 2 * gridTrim node
       \<and> (\<forall>k < length (indicesToExtract (gridSelect node) (gridCols node * gridCols node)).
            \<exists>url mediumUrl.
              uploadToImgBB
                (io_imgbb io
                   \<lparr>crop_src = u,
                    crop_rect =
                      \<lparr>rect_sx = of_int ((indicesToExtract (gridSelect node) (gridCols node * gridCols node) ! k - 1)
                                          mod int (gridCols node))
                                 * (of_nat w / of_nat (gridCols node)) + gridTrim node,
                       rect_sy = of_int ((indicesToExtract (gridSelect node) (gridCols node * gridCols node) ! k - 1)
                                          div int (gridCols node))
                                 * (of_nat h / of_nat (gridCols node)) + gridTrim node,
                       rect_sw = of_nat w / of_nat (gridCols node) - 2 * gridTrim node,
                       rect_sh = of_nat h / of_nat (gridCols node) - 2 * gridTrim node\<rparr>\<rparr>
                   (''split_'' @ showNat (nat (indicesToExtract (gridSelect node) (gridCols node * gridCols node) ! k))))
                (io_imgbbKey io) = Inr (url, mediumUrl)
            \<and> data (nodes (fst (imageSplit io (finalizeNode runStartTime now) nodeId node inputs st))
                      ! (length (nodes st) + k)) ''url'' = Some (JStr url)))
   \<and> (images inputs = u # us \<and> io_decode io u = Inr (w, h) \<and> io_context io
        \<and> indicesToExtract (gridSelect node) (gridCols node * gridCols node) \<noteq> []
        \<and> 0 < of_nat w / of_nat (gridCols node) - 2 * gridTrim node
        \<and> 0 < of_nat h / of_nat (gridCols node) - 2 * gridTrim node
        \<and> (\<forall>index \<in> set (indicesToExtract (gridSelect node) (gridCols node * gridCols node)). \<exists>r.
              uploadToImgBB
                (io_imgbb io
                   \<lparr>crop_src = u,
                    crop_rect =
                      \<lparr>rect_sx = of_int ((index - 1) mod int (gridCols node))
                                 * (of_nat w / of_nat (gridCols node)) + gridTrim node,
                       rect_sy = of_int ((index - 1) div int (gridCols node))
                                 * (of_nat h / of_nat (gridCols node)) + gridTrim node,
                       rect_sw = of_nat w / of_nat (gridCols node) - 2 * gridTrim node,
                       rect_sh = of_nat h / of_nat (gridCols node) - 2 * gridTrim node\<rparr>\<rparr>
                   (''split_'' @ showNat (nat index)))
                (io_imgbbKey io) = Inr r) \<longrightarrow>
        snd (imageSplit io finish nodeId node inputs st) = Inr ())"
proof -
  have dims: "rect_sw (cellRect cols cellW cellH trm index) = cellW - 2 * trm"
             "rect_sh (cellRect cols cellW cellH trm index) = cellH - 2 * trm"
    by (simp_all add: cellRect_def Let_def)
  have handler: "\<exists>e. imageSplit io finish nodeId node inputs st
                = (updateNodeData nodeId [''statusMsg'' \<mapsto> JStr ''Processing Split...''] st, Inl e)
            \<and> (io_context io
                 \<and> indicesToExtract (gridSelect node) (gridCols node * gridCols node) \<noteq> []
               \<longrightarrow> e = TrimTooLarge)"
    if "images inputs = u # us" "io_decode io u = Inr (w, h)"
       "of_nat w / of_nat (gridCols node) - 2 * gridTrim node \<le> 0
           \<or> of_nat h / of_nat (gridCols node) - 2 * gridTrim node \<le> 0"
    using imageSplit_trim [OF that] .
  have run: "statusOf (executeNode_imageSplit io runStartTime now nodeId st) nodeId = ''error''
      \<and> length (nodes (executeNode_imageSplit io runStartTime now nodeId st)) = length (nodes st)
      \<and> edges (executeNode_imageSplit io runStartTime now nodeId st) = edges st
      \<and> (io_context io
           \<and> indicesToExtract (gridSelect node) (gridCols node * gridCols node) \<noteq> [] \<longrightarrow>
          statusMsgOf (executeNode_imageSplit io runStartTime now nodeId st) nodeId
            = Some (message TrimTooLarge))"
    if n: "findNode st nodeId = Some node" and ty: "node_type node = ''imageSplit''"
      and im: "images (getIncomingData st nodeId) = u # us" and de: "io_decode io u = Inr (w, h)"
      and tr: "of_nat w / of_nat (gridCols node) - 2 * gridTrim node \<le> 0
           \<or> of_nat h / of_nat (gridCols node) - 2 * gridTrim node \<le> 0"
  proof -
    let ?st1 = "updateNodeData nodeId (startPatch runStartTime) st"
    let ?st2 = "updateNodeData nodeId [''statusMsg'' \<mapsto> JStr ''Processing Split...''] ?st1"
    from imageSplit_trim [OF im de tr, of "finalizeNode runStartTime now" nodeId ?st1]
    obtain e where h: "imageSplit io (finalizeNode runStartTime now) nodeId node (getIncomingData st nodeId) ?st1
                             = (?st2, Inl e)"
      and e: "io_context io
                 \<and> indicesToExtract (gridSelect node) (gridCols node * gridCols node) \<noteq> []
               \<longrightarrow> e = TrimTooLarge"
      by blast
    from n have f: "findNode ?st2 nodeId \<noteq> None"
      by (simp add: findNode_updateNodeData)
    from n ty h
    have r: "executeNode_imageSplit io runStartTime now nodeId st
            = finalizeNode runStartTime now nodeId ''error'' [''statusMsg'' \<mapsto> message e] ?st2"
      unfolding executeNode_imageSplit_def by (intro runNode_caught) auto
    show ?thesis
      using e f by (auto simp: r finalizeNode_error_status finalizeNode_shape updateNodeData_shape)
  qed
  note cells = imageSplit_cells [of inputs u us io w h runStartTime now nodeId node st]
  note succ = imageSplit_succeeds [of inputs u us io w h node finish nodeId st]
  show ?thesis
    apply (intro conjI)
         apply (rule dims(1))
        apply (rule dims(2))
       apply (rule impI, elim conjE, rule handler, assumption+)
      apply (rule impI, elim conjE, rule run, assumption+)
     apply (rule impI, elim conjE, rule cells, assumption+)
    apply (rule impI, elim conjE, rule succ, assumption+)
    done
qed

lemma example_trim_node: "findNode (splitStore trimConfig) ''s'' = Some (mkNode ''s'' ''imageSplit'' trimConfig)"
  by (simp add: findNode_def splitStore_def mkNode_def)

lemma example_trim_config:
  "gridSelect (mkNode ''s'' ''imageSplit'' trimConfig) = ''0''"
  "gridCols (mkNode ''s'' ''imageSplit'' trimConfig) = 2"
  "gridTrim (mkNode ''s'' ''imageSplit'' trimConfig) = 160"
  by (simp_all add: gridSelect_def gridCols_def gridTrim_def mkNode_def strField_def numField_def
      orElse_def trimConfig_def)

lemma example_trim_images: "images (getIncomingData (splitStore trimConfig) ''s'') = [''http://img/grid'']"
  by (simp add: getIncomingData_def splitStore_def mkNode_def mkImageEdge_def isTextHandle_def
      isImageHandle_def orderOf_def pushImage_def pushText_def findNode_def strField_def Let_def)

lemma example_trim_selection: "indicesToExtract ''0'' (2 * 2) \<noteq> []"
  by (simp add: indicesToExtract_def trim_def isWhiteSpace_def)

lemma example_crop_config:
  "gridSelect cropNode = ''2,3''" "gridCols cropNode = 2" "gridTrim cropNode = 10"
  by (simp_all add: gridSelect_def gridCols_def gridTrim_def cropNode_def mkNode_def strField_def
      numField_def orElse_def cropConfig_def)

lemma example_crop_selection: "indicesToExtract ''2,3'' 4 = [2, 3]"
  by (simp add: indicesToExtract_def trim_def isSeparator_def isWhiteSpace_def parseInt_def
      isDigit_def digitsValue_def Let_def inRange_def)

lemma example_crop_names: "showNat 2 = ''2''" "showNat 3 = ''3''"
  by code_simp+

lemma example_crop_upload:
  "uploadToImgBB
     (io_imgbb cropIo \<lparr>crop_src = src, crop_rect = \<lparr>rect_sx = a, rect_sy = b, rect_sw = 280, rect_sh = 280\<rparr>\<rparr> name)
     (io_imgbbKey cropIo) = Inr (''http://host/280x280/'' @ name, ''http://host/280x280/'' @ name)"
  by (simp add: uploadToImgBB_def cropIo_def orElse_def)

text \<open>
  Cells of 300 by 300 pixels: a trim of 160 is refused; a trim of 10 uploads, for the
  cells 2 and 3, blobs of 280 by 280 pixels.
\<close>

theorem split_trim_too_large_witness:
  "(rect_sw (cellRect 2 300 300 160 1) = - 20
   \<and> statusOf (executeNode_imageSplit splitIo 0 1500 ''s'' (splitStore trimConfig)) ''s'' = ''error''
   \<and> statusMsgOf (executeNode_imageSplit splitIo 0 1500 ''s'' (splitStore trimConfig)) ''s''
       = Some (message TrimTooLarge)
   \<and> length (nodes (executeNode_imageSplit splitIo 0 1500 ''s'' (splitStore trimConfig))) = 2
   \<and> edges (executeNode_imageSplit splitIo 0 1500 ''s'' (splitStore trimConfig))
       = edges (splitStore trimConfig))
   \<and> (snd (imageSplit cropIo (finalizeNode 0 1500) ''s'' cropNode oneImage (splitStore cropConfig)) = Inr ()
   \<and> length (nodes (fst (imageSplit cropIo (finalizeNode 0 1500) ''s'' cropNode oneImage
                          (splitStore cropConfig)))) = 4
   \<and> data (nodes (fst (imageSplit cropIo (finalizeNode 0 1500) ''s'' cropNode oneImage
                          (splitStore cropConfig))) ! 2) ''url''
       = Some (JStr ''http://host/280x280/split_2'')
   \<and> data (nodes (fst (imageSplit cropIo (finalizeNode 0 1500) ''s'' cropNode oneImage
                          (splitStore cropConfig))) ! 3) ''url''
       = Some (JStr ''http://host/280x280/split_3''))"
proof -
  have refused: "rect_sw (cellRect 2 300 300 160 1) = - 20
   \<and> statusOf (executeNode_imageSplit splitIo 0 1500 ''s'' (splitStore trimConfig)) ''s'' = ''error''
   \<and> statusMsgOf (executeNode_imageSplit splitIo 0 1500 ''s'' (splitStore trimConfig)) ''s''
       = Some (message TrimTooLarge)
   \<and> length (nodes (executeNode_imageSplit splitIo 0 1500 ''s'' (splitStore trimConfig))) = 2
   \<and> edges (executeNode_imageSplit splitIo 0 1500 ''s'' (splitStore trimConfig))
       = edges (splitStore trimConfig)"
  proof -
    note th = split_trim_too_large [where cols = 2 and cellW = 300 and cellH = 300 and trm = 160
        and index = 1 and inputs = "getIncomingData (splitStore trimConfig) ''s''"
        and u = "''http://img/grid''" and us = "[]" and io = splitIo and w = 600 and h = 600
        and node = "mkNode ''s'' ''imageSplit'' trimConfig" and finish = "finalizeNode 0 1500"
        and nodeId = "''s''" and st = "splitStore trimConfig" and runStartTime = 0 and now = 1500]
    have io: "io_decode splitIo ''http://img/grid'' = Inr (600, 600)" "io_context splitIo"
      by (simp_all add: splitIo_def)
    have ty: "node_type (mkNode ''s'' ''imageSplit'' trimConfig) = ''imageSplit''"
      by (simp add: mkNode_def)
    have len: "length (nodes (splitStore trimConfig)) = 2" by (simp add: splitStore_def)
    show ?thesis
      using th example_trim_node example_trim_config example_trim_images example_trim_selection
        io ty len
      by simp
  qed
  have extracted: "snd (imageSplit cropIo (finalizeNode 0 1500) ''s'' cropNode oneImage (splitStore cropConfig)) = Inr ()
   \<and> length (nodes (fst (imageSplit cropIo (finalizeNode 0 1500) ''s'' cropNode oneImage
                          (splitStore cropConfig)))) = 4
   \<and> data (nodes (fst (imageSplit cropIo (finalizeNode 0 1500) ''s'' cropNode oneImage
                          (splitStore cropConfig))) ! 2) ''url''
       = Some (JStr ''http://host/280x280/split_2'')
   \<and> data (nodes (fst (imageSplit cropIo (finalizeNode 0 1500) ''s'' cropNode oneImage
                          (splitStore cropConfig))) ! 3) ''url''
       = Some (JStr ''http://host/280x280/split_3'')"
  proof -
    note th = split_trim_too_large [where io = cropIo and node = cropNode and inputs = oneImage
        and u = "''http://img/grid''" and us = "[]" and w = 600 and h = 600
        and finish = "finalizeNode 0 1500" and runStartTime = 0 and now = 1500
        and nodeId = "''s''" and st = "splitStore cropConfig"
        and cols = 2 and cellW = 300 and cellH = 300 and trm = 10 and index = 2]
    have im: "images oneImage = [''http://img/grid'']" by (simp add: oneImage_def)
    have io: "io_decode cropIo ''http://img/grid'' = Inr (600, 600)" "io_context cropIo"
      by (simp_all add: cropIo_def)
    have len: "length (nodes (splitStore cropConfig)) = 2" by (simp add: splitStore_def)
    have d: "(600 :: rat) / 2 - 2 * 10 = 280" by simp
    from th
    have succ: "snd (imageSplit cropIo (finalizeNode 0 1500) ''s'' cropNode oneImage
                       (splitStore cropConfig)) = Inr ()"
      by (simp add: im io example_crop_config example_crop_selection d example_crop_upload)
    from th succ
    have cells: "length (nodes (fst (imageSplit cropIo (finalizeNode 0 1500) ''s'' cropNode oneImage
                            (splitStore cropConfig)))) = 4
       \<and> (\<forall>k<2. data (nodes (fst (imageSplit cropIo (finalizeNode 0 1500) ''s'' cropNode oneImage
                            (splitStore cropConfig))) ! (2 + k)) ''url''
              = Some (JStr (''http://host/280x280/split_'' @ showNat (nat ([2, 3] ! k)))))"
      by (simp add: im io example_crop_config example_crop_selection d example_crop_upload len)
    from cells have all: "k < 2 \<Longrightarrow>
        data (nodes (fst (imageSplit cropIo (finalizeNode 0 1500) ''s'' cropNode oneImage
                            (splitStore cropConfig))) ! (2 + k)) ''url''
              = Some (JStr (''http://host/280x280/split_'' @ showNat (nat ([2, 3] ! k))))" for k
      by blast
    from all [of 0] all [of 1] succ cells show ?thesis
      by (simp add: example_crop_names)
  qed
  from refused extracted show ?thesis by simp
qed

lemma splitLoop_decode:
  "splitLoop (io\<lparr>io_decode := f\<rparr>) cx i indices ns es st = splitLoop io cx i indices ns es st"
  by (induction indices arbitrary: i ns es st) (auto simp: Let_def split: sum.splits)

text \<open>
  Claim C9. The splitter reads the first resolved image only: the images after the
  first, the texts and the remarks do not change what the handler returns, and the
  decoder is asked about the first image alone (two decoders that agree on it give the
  same result).
\<close>

theorem split_first_image_only:
  "imageSplit io finish nodeId node (inputs\<lparr>images := u # rest\<rparr>) st
     = imageSplit io finish nodeId node \<lparr>texts = [], images = [u], imageRemarks = []\<rparr> st
   \<and> (f u = g u \<longrightarrow>
        imageSplit (io\<lparr>io_decode := f\<rparr>) finish nodeId node (inputs\<lparr>images := u # rest\<rparr>) st
          = imageSplit (io\<lparr>io_decode := g\<rparr>) finish nodeId node (inputs\<lparr>images := u # rest\<rparr>) st)"
  unfolding imageSplit_unfold splitLoop_decode by (auto split: sum.splits)

theorem split_first_image_only_witness:
  "imageSplit (splitIo\<lparr>io_decode := (\<lambda>v. if v = ''http://img/a'' then Inr (600, 600)
                                          else Inl (Failure JUndefined))\<rparr>)
      (finalizeNode 0 1500) ''s'' (mkNode ''s'' ''imageSplit'' trimConfig)
      \<lparr>texts = [], images = [''http://img/a'', ''http://img/b''], imageRemarks = []\<rparr>
      (splitStore trimConfig)
   = imageSplit (splitIo\<lparr>io_decode := (\<lambda>v. Inr (600, 600))\<rparr>)
      (finalizeNode 0 1500) ''s'' (mkNode ''s'' ''imageSplit'' trimConfig)
      \<lparr>texts = [], images = [''http://img/a'', ''http://img/b''], imageRemarks = []\<rparr>
      (splitStore trimConfig)"
  using split_first_image_only [where io = splitIo and finish = "finalizeNode 0 1500"
      and nodeId = "''s''" and node = "mkNode ''s'' ''imageSplit'' trimConfig"
      and inputs = "\<lparr>texts = [], images = [], imageRemarks = []\<rparr>"
      and u = "''http://img/a''" and rest = "[''http://img/b'']"
      and st = "splitStore trimConfig"
      and f = "\<lambda>v. if v = ''http://img/a'' then Inr (600, 600) else Inl (Failure JUndefined)"
      and g = "\<lambda>v. Inr (600, 600)"]
  by simp

subsection \<open>Video submissions\<close>

text \<open>
  Claim C5 asks, on both provider paths, for the positional reading of the resolved
  images, with three or more cut to the first three. A Comfly model with four resolved
  images submits all four, as one list; the GRSAI model \<^verbatim>\<open>sora-2\<close> with four resolved
  images submits the first one alone.
\<close>

theorem video_comfly_not_truncated:
  "submittedImages (videoRequest (videoNode ''comfly:veo3.1-fast'') fourImages ''p'' ''16:9'')
     = ImageList (Some [''u1'', ''u2'', ''u3'', ''u4''])
   \<and> submittedImages (videoRequest (videoNode ''comfly:veo3.1-fast'') fourImages ''p'' ''16:9'')
     \<noteq> positional (images fourImages)
   \<and> submittedImages (videoRequest (videoNode ''comfly:veo3.1-fast'') fourImages ''p'' ''16:9'')
     \<noteq> ImageList (Some (take 3 (images fourImages)))
   \<and> submittedImages (videoRequest (videoNode ''sora-2'') fourImages ''p'' ''16:9'')
     = SingleUrl ''u1''"
  by (simp add: videoRequest_def videoNode_def fourImages_def mkNode_def strField_def startsWith_def
      comflyVideo_payload_def submittedImages_def positional_def Let_def orElse_def
      grsaiVideo_request_def prepareVeoPayload_def)

lemma sora_not_comfly: "\<not> startsWith ''sora-2'' ''comfly:''"
  by (simp add: startsWith_def)

text \<open>
  Claim C5, amended. On the GRSAI path with a model other than \<^verbatim>\<open>sora-2\<close> the submitted
  images follow from the number of resolved images alone: none, a first frame, a first
  and last frame, or the first three as a reference set. On the GRSAI path with
  \<^verbatim>\<open>sora-2\<close> the first resolved image alone is submitted. On the Comfly path the whole
  list of resolved images is submitted as it is, whatever its length, and left out when
  it is empty.
\<close>

theorem video_submitted_images:
  "(\<not> startsWith (strField (data node) ''model'') ''comfly:''
      \<and> strField (data node) ''model'' \<noteq> ''sora-2'' \<longrightarrow>
      submittedImages (videoRequest node inputs fullPrompt targetAspectRatio)
        = positional (images inputs))
   \<and> (strField (data node) ''model'' = ''sora-2'' \<longrightarrow>
        submittedImages (videoRequest node inputs fullPrompt targetAspectRatio)
          = SingleUrl (case images inputs of [] \<Rightarrow> [] | u # us \<Rightarrow> u))
   \<and> (startsWith (strField (data node) ''model'') ''comfly:'' \<longrightarrow>
        submittedImages (videoRequest node inputs fullPrompt targetAspectRatio)
          = ImageList (if images inputs = [] then None else Some (images inputs)))"
proof (intro conjI impI)
  assume a: "\<not> startsWith (strField (data node) ''model'') ''comfly:''
      \<and> strField (data node) ''model'' \<noteq> ''sora-2''"
  then have "orElse (strField (data node) ''model'') ''veo3.1-fast'' \<noteq> ''sora-2''"
    by (auto simp: orElse_def)
  moreover have "length (images inputs) = 0 \<or> length (images inputs) = 1
      \<or> length (images inputs) = 2 \<or> 3 \<le> length (images inputs)"
    by arith
  ultimately show "submittedImages (videoRequest node inputs fullPrompt targetAspectRatio)
        = positional (images inputs)"
    using a by (auto simp: videoRequest_def Let_def grsaiVideo_request_def prepareVeoPayload_def
        submittedImages_def positional_def)
next
  assume a: "strField (data node) ''model'' = ''sora-2''"
  then show "submittedImages (videoRequest node inputs fullPrompt targetAspectRatio)
          = SingleUrl (case images inputs of [] \<Rightarrow> [] | u # us \<Rightarrow> u)"
    by (auto simp: videoRequest_def Let_def grsaiVideo_request_def prepareVeoPayload_def
        submittedImages_def sora_not_comfly orElse_def split: list.splits)
next
  assume a: "startsWith (strField (data node) ''model'') ''comfly:''"
  then show "submittedImages (videoRequest node inputs fullPrompt targetAspectRatio)
          = ImageList (if images inputs = [] then None else Some (images inputs))"
    by (auto simp: videoRequest_def Let_def comflyVideo_payload_def submittedImages_def)
qed

theorem video_submitted_images_witness:
  "submittedImages (videoRequest (videoNode ''veo3.1-pro'') fourImages ''p'' ''16:9'')
     = Frames [] [] (Some [''u1'', ''u2'', ''u3''])
   \<and> submittedImages (videoRequest (videoNode ''veo3.1-pro'') (fourImages\<lparr>images := [''u1'', ''u2'']\<rparr>) ''p'' ''16:9'')
     = Frames ''u1'' ''u2'' None
   \<and> submittedImages (videoRequest (videoNode ''sora-2'') fourImages ''p'' ''16:9'') = SingleUrl ''u1''
   \<and> submittedImages (videoRequest (videoNode ''comfly:veo3.1-fast'') fourImages ''p'' ''16:9'')
     = ImageList (Some [''u1'', ''u2'', ''u3'', ''u4''])"
  using video_submitted_images [of "videoNode ''veo3.1-pro''" fourImages "''p''" "''16:9''"]
        video_submitted_images [of "videoNode ''veo3.1-pro''" "fourImages\<lparr>images := [''u1'', ''u2'']\<rparr>" "''p''" "''16:9''"]
        video_submitted_images [of "videoNode ''sora-2''" fourImages "''p''" "''16:9''"]
        video_submitted_images [of "videoNode ''comfly:veo3.1-fast''" fourImages "''p''" "''16:9''"]
  by (simp add: videoNode_def mkNode_def strField_def startsWith_def fourImages_def positional_def)

subsection \<open>Polling\<close>

text \<open>
  Claim C6 asks that every error of a node execution, those of the poll and completion
  phase included, be caught and turn the node's status to \<^verbatim>\<open>error\<close>. An image generator
  on a Comfly model is run with no imgBB key in the settings: the submission succeeds,
  the provider answers the poll with the enveloped task
  \<^verbatim>\<open>{ code: 'success', data: { status: 'SUCCESS', progress: '100%', data: { data: [{ url }] } } }\<close>,
  and the upload inside \<^verbatim>\<open>poll\<close> throws. The throw is not handled, nothing is scheduled,
  and the node keeps the status \<^verbatim>\<open>loading\<close> with the message of the upload. The same
  happens when the poll request itself is rejected.
\<close>

theorem poll_error_escapes_catch:
  "snd (pollComflyImage_response noKeyIo 0 ''g'' genNode (Inr (Enveloped doneTask))
          (runNode (comflyImageSubmit (Inr ''task-1'') ''g'') 0 9000 ''g'' genStore))
     = Unhandled MissingImgbbKey
   \<and> statusOf (fst (pollComflyImage_response noKeyIo 0 ''g'' genNode (Inr (Enveloped doneTask))
          (runNode (comflyImageSubmit (Inr ''task-1'') ''g'') 0 9000 ''g'' genStore))) ''g''
     = ''loading''
   \<and> statusMsgOf (fst (pollComflyImage_response noKeyIo 0 ''g'' genNode (Inr (Enveloped doneTask))
          (runNode (comflyImageSubmit (Inr ''task-1'') ''g'') 0 9000 ''g'' genStore))) ''g''
     = Some (JStr ''Uploading Result...'')
   \<and> snd (pollComflyImage_response noKeyIo 0 ''g'' genNode (Inl (Failure (JStr ''Failed to fetch'')))
          (runNode (comflyImageSubmit (Inr ''task-1'') ''g'') 0 9000 ''g'' genStore))
     = Unhandled (Failure (JStr ''Failed to fetch''))
   \<and> statusOf (fst (pollComflyImage_response noKeyIo 0 ''g'' genNode
                       (Inl (Failure (JStr ''Failed to fetch'')))
          (runNode (comflyImageSubmit (Inr ''task-1'') ''g'') 0 9000 ''g'' genStore))) ''g''
     = ''loading''"
proof -
  have run: "runNode (comflyImageSubmit (Inr ''task-1'') ''g'') 0 9000 ''g'' genStore
     = updateNodeData ''g'' [''statusMsg'' \<mapsto> JStr ''Queueing Task...'']
         (updateNodeData ''g'' (startPatch 0) genStore)"
    by (simp add: runNode_def comflyImageSubmit_def genStore_def genNode_def mkNode_def
        findNode_def Let_def)
  have raw: "toUpperCase ''SUCCESS'' = ''SUCCESS''"
    by code_simp
  have poll: "pollComflyImage_response noKeyIo 0 ''g'' genNode (Inr (Enveloped doneTask)) st
     = (updateNodeData ''g'' [''statusMsg'' \<mapsto> JStr ''Uploading Result...''] st,
        Unhandled MissingImgbbKey)" for st
    by (simp add: pollComflyImage_response_def pollComflyImage_def doneTask_def noKeyIo_def
        orElse_def raw isDoneStatus_def uploadToImgBB_def Let_def)
  have rej: "pollComflyImage_response noKeyIo 0 ''g'' genNode (Inl e) st = (st, Unhandled e)" for e st
    by (simp add: pollComflyImage_response_def pollComflyImage_def)
  show ?thesis
    unfolding run poll rej
    by (simp add: statusOf_def statusMsgOf_def updateNodeData_def findNode_def
        genStore_def genNode_def mkNode_def startPatch_def strField_def)
qed

text \<open>
  Claim C7 asks that the status message be the failure reason the provider reports. On
  the GRSAI image path a failed result that carries a reason leaves the fixed message
  \<^verbatim>\<open>Violated/Failed\<close>.
\<close>

theorem grsai_failure_reason_not_surfaced:
  "gr_other failedResult ''failure_reason'' = Some (JStr ''output_moderation'')
   \<and> statusMsgOf (fst (pollGrsaiDraw noKeyIo 0 ''g'' genNode (Inr failedResult) genStore)) ''g''
       = Some (JStr ''Violated/Failed'')
   \<and> statusMsgOf (fst (pollGrsaiDraw noKeyIo 0 ''g'' genNode (Inr failedResult) genStore)) ''g''
       \<noteq> Some (JStr ''output_moderation'')"
  by (simp add: pollGrsaiDraw_def failedResult_def noKeyIo_def finalizeNode_def Let_def
      statusMsgOf_def updateNodeData_def findNode_def genStore_def genNode_def mkNode_def)

text \<open>
  Claim C7, amended. When a poll response reports an explicit failure status
  (\<^verbatim>\<open>FAILED\<close>, \<^verbatim>\<open>ERROR\<close> or \<^verbatim>\<open>FAILURE\<close> on the Comfly image path, \<^verbatim>\<open>FAILURE\<close> or \<^verbatim>\<open>FAILED\<close> on the
  Comfly video path, \<^verbatim>\<open>failed\<close> on the GRSAI paths), polling stops and the node's status
  becomes \<^verbatim>\<open>error\<close>. The status message is the provider's \<^verbatim>\<open>fail_reason\<close> on the Comfly
  paths when it is not empty and \<^verbatim>\<open>Generation Failed\<close> otherwise; on the GRSAI paths it is
  the fixed text \<^verbatim>\<open>Violated/Failed\<close> (image) or \<^verbatim>\<open>Generation Failed\<close> (video).
\<close>

theorem poll_failure_message:
  assumes "findNode st nodeId \<noteq> None"
  shows
  "(toUpperCase (orElse (ct_status task) (orElse (ct_state task) []))
       \<in> set [''FAILED'', ''ERROR'', ''FAILURE''] \<longrightarrow>
      snd (pollComflyImage io runStartTime nodeId node (Inr task) st) = Stop
    \<and> statusOf (fst (pollComflyImage io runStartTime nodeId node (Inr task) st)) nodeId = ''error''
    \<and> statusMsgOf (fst (pollComflyImage io runStartTime nodeId node (Inr task) st)) nodeId
        = Some (JStr (orElse (ct_fail_reason task) ''Generation Failed'')))
   \<and> (toUpperCase (orElse (cr_status vres) (orElse (cr_state vres) []))
         \<in> set [''FAILURE'', ''FAILED''] \<longrightarrow>
      snd (pollComflyVideo io runStartTime nodeId node (Inr vres) st) = Stop
    \<and> statusOf (fst (pollComflyVideo io runStartTime nodeId node (Inr vres) st)) nodeId = ''error''
    \<and> statusMsgOf (fst (pollComflyVideo io runStartTime nodeId node (Inr vres) st)) nodeId
        = Some (JStr (orElse (cr_fail_reason vres) ''Generation Failed'')))
   \<and> (gr_status gres = ''failed'' \<longrightarrow>
      snd (pollGrsaiDraw io runStartTime nodeId node (Inr gres) st) = Stop
    \<and> statusOf (fst (pollGrsaiDraw io runStartTime nodeId node (Inr gres) st)) nodeId = ''error''
    \<and> statusMsgOf (fst (pollGrsaiDraw io runStartTime nodeId node (Inr gres) st)) nodeId
        = Some (JStr ''Violated/Failed'')
    \<and> snd (pollGrsaiVideo io runStartTime nodeId node (Inr gres) st) = Stop
    \<and> statusOf (fst (pollGrsaiVideo io runStartTime nodeId node (Inr gres) st)) nodeId = ''error''
    \<and> statusMsgOf (fst (pollGrsaiVideo io runStartTime nodeId node (Inr gres) st)) nodeId
        = Some (JStr ''Generation Failed''))"
proof -
  have a: "snd (pollComflyImage io runStartTime nodeId node (Inr task) st) = Stop
    \<and> statusOf (fst (pollComflyImage io runStartTime nodeId node (Inr task) st)) nodeId = ''error''
    \<and> statusMsgOf (fst (pollComflyImage io runStartTime nodeId node (Inr task) st)) nodeId
        = Some (JStr (orElse (ct_fail_reason task) ''Generation Failed''))"
    if "toUpperCase (orElse (ct_status task) (orElse (ct_state task) []))
       \<in> set [''FAILED'', ''ERROR'', ''FAILURE'']"
  proof -
  from that have "pollComflyImage io runStartTime nodeId node (Inr task) st
     = (finalizeNode runStartTime (pio_now io) nodeId ''error''
          [''statusMsg'' \<mapsto> JStr (orElse (ct_fail_reason task) ''Generation Failed'')] st, Stop)"
    by (simp add: pollComflyImage_def Let_def)
  then show ?thesis
    using assms by (simp add: finalizeNode_error_status)
  qed
  have b: "snd (pollComflyVideo io runStartTime nodeId node (Inr vres) st) = Stop
    \<and> statusOf (fst (pollComflyVideo io runStartTime nodeId node (Inr vres) st)) nodeId = ''error''
    \<and> statusMsgOf (fst (pollComflyVideo io runStartTime nodeId node (Inr vres) st)) nodeId
        = Some (JStr (orElse (cr_fail_reason vres) ''Generation Failed''))"
    if "toUpperCase (orElse (cr_status vres) (orElse (cr_state vres) []))
         \<in> set [''FAILURE'', ''FAILED'']"
  proof -
  from that have "pollComflyVideo io runStartTime nodeId node (Inr vres) st
     = (finalizeNode runStartTime (pio_now io) nodeId ''error''
          [''statusMsg'' \<mapsto> JStr (orElse (cr_fail_reason vres) ''Generation Failed'')] st, Stop)"
    by (auto simp: pollComflyVideo_def Let_def)
  then show ?thesis
    using assms by (simp add: finalizeNode_error_status)
  qed
  have c: "snd (pollGrsaiDraw io runStartTime nodeId node (Inr gres) st) = Stop
    \<and> statusOf (fst (pollGrsaiDraw io runStartTime nodeId node (Inr gres) st)) nodeId = ''error''
    \<and> statusMsgOf (fst (pollGrsaiDraw io runStartTime nodeId node (Inr gres) st)) nodeId
        = Some (JStr ''Violated/Failed'')
    \<and> snd (pollGrsaiVideo io runStartTime nodeId node (Inr gres) st) = Stop
    \<and> statusOf (fst (pollGrsaiVideo io runStartTime nodeId node (Inr gres) st)) nodeId = ''error''
    \<and> statusMsgOf (fst (pollGrsaiVideo io runStartTime nodeId node (Inr gres) st)) nodeId
        = Some (JStr ''Generation Failed'')"
    if "gr_status gres = ''failed''"
  proof -
  from that have "pollGrsaiDraw io runStartTime nodeId node (Inr gres) st
     = (finalizeNode runStartTime (pio_now io) nodeId ''error'' [''statusMsg'' \<mapsto> JStr ''Violated/Failed''] st, Stop)"
    and "pollGrsaiVideo io runStartTime nodeId node (Inr gres) st
     = (finalizeNode runStartTime (pio_now io) nodeId ''error'' [''statusMsg'' \<mapsto> JStr ''Generation Failed''] st, Stop)"
    by (simp_all add: pollGrsaiDraw_def pollGrsaiVideo_def)
  then show ?thesis
    using assms by (simp add: finalizeNode_error_status)
  qed
  from a b c show ?thesis by blast
qed

lemma example_failed_upper: "toUpperCase ''failed'' = ''FAILED''"
  by code_simp

theorem poll_failure_message_witness:
  "snd (pollComflyImage noKeyIo 0 ''g'' genNode (Inr failedTask) genStore) = Stop
   \<and> statusOf (fst (pollComflyImage noKeyIo 0 ''g'' genNode (Inr failedTask) genStore)) ''g'' = ''error''
   \<and> statusMsgOf (fst (pollComflyImage noKeyIo 0 ''g'' genNode (Inr failedTask) genStore)) ''g''
       = Some (JStr ''quota exceeded'')
   \<and> statusMsgOf (fst (pollGrsaiVideo noKeyIo 0 ''g'' genNode (Inr failedResult) genStore)) ''g''
       = Some (JStr ''Generation Failed'')"
proof -
  have n: "findNode genStore ''g'' \<noteq> None"
    by (simp add: findNode_def genStore_def genNode_def mkNode_def)
  have s: "toUpperCase (orElse (ct_status failedTask) (orElse (ct_state failedTask) []))
             \<in> set [''FAILED'', ''ERROR'', ''FAILURE'']"
    by (simp add: failedTask_def orElse_def example_failed_upper)
  have g: "gr_status failedResult = ''failed''" by (simp add: failedResult_def)
  have r: "orElse (ct_fail_reason failedTask) ''Generation Failed'' = ''quota exceeded''"
    by (simp add: failedTask_def orElse_def)
  note th = poll_failure_message [OF n, where task = failedTask and io = noKeyIo and runStartTime = 0
      and node = genNode and gres = failedResult
      and vres = "\<lparr>cr_status = [], cr_state = [], cr_fail_reason = [], cr_progress = [],
                    cr_data = None\<rparr>"]
  from th s
  have a: "snd (pollComflyImage noKeyIo 0 ''g'' genNode (Inr failedTask) genStore) = Stop
    \<and> statusOf (fst (pollComflyImage noKeyIo 0 ''g'' genNode (Inr failedTask) genStore)) ''g'' = ''error''
    \<and> statusMsgOf (fst (pollComflyImage noKeyIo 0 ''g'' genNode (Inr failedTask) genStore)) ''g''
        = Some (JStr (orElse (ct_fail_reason failedTask) ''Generation Failed''))"
    by blast
  from th g
  have b: "statusMsgOf (fst (pollGrsaiVideo noKeyIo 0 ''g'' genNode (Inr failedResult) genStore)) ''g''
       = Some (JStr ''Generation Failed'')"
    by blast
  from a b r show ?thesis by simp
qed

end
